theory Spec2Isabelle
  imports Complex_Main "HOL-Library.Sublist"
begin

section \<open>The SkyShowtime client: conventions of the embedding\<close>

text \<open>
  The source is \<^verbatim>\<open>resources/lib/sky.py\<close>, class \<^verbatim>\<open>SkyShowtime\<close>. Its payloads are
  parsed JSON objects. The embedding gives every object the keys the code reads, each key
  typed as the upstream schema types it, and each key optional: \<open>None\<close> is a key that is
  absent. A key read by subscription (\<^verbatim>\<open>e['id']\<close>) that is absent raises \<^verbatim>\<open>KeyError\<close>,
  which is the value \<open>Inl (KeyError key)\<close> of the model; a key read by \<^verbatim>\<open>.get\<close> or tested
  by \<^verbatim>\<open>in\<close> never raises. Where the code stores Python's \<^verbatim>\<open>None\<close> as a value, the model
  stores \<open>None\<close> in a field of option type and says so at the field.
\<close>

datatype error = KeyError string | AttributeError | ValueError | TypeError

text \<open>\<^verbatim>\<open>d[key]\<close> on a dictionary: the value, or \<^verbatim>\<open>KeyError\<close>.\<close>

definition req :: "string \<Rightarrow> 'a option \<Rightarrow> error + 'a" where
  "req k v = (case v of None \<Rightarrow> Inl (KeyError k) | Some x \<Rightarrow> Inr x)"

text \<open>Sequencing of statements that may raise: the first exception ends the function.\<close>

definition ebind :: "error + 'a \<Rightarrow> ('a \<Rightarrow> error + 'b) \<Rightarrow> error + 'b" where
  "ebind m f = (case m of Inl e \<Rightarrow> Inl e | Inr x \<Rightarrow> f x)"

text \<open>
  Truth value of a string or \<^verbatim>\<open>None\<close>, as \<^verbatim>\<open>if url:\<close> reads it: \<^verbatim>\<open>None\<close> and the empty
  string are false.
\<close>

definition truthy :: "string option \<Rightarrow> bool" where
  "truthy v = (case v of None \<Rightarrow> False | Some s \<Rightarrow> s \<noteq> [])"

text \<open>
  \<^verbatim>\<open>s.replace(old, new)\<close>: every occurrence of \<open>old\<close>, leftmost first and without overlap.
  The counter of \<open>replace_from\<close> is the number of characters of a matched occurrence still
  to be skipped.
\<close>

fun replace_from :: "string \<Rightarrow> string \<Rightarrow> nat \<Rightarrow> string \<Rightarrow> string" where
  "replace_from old new k [] = []"
| "replace_from old new (Suc k) (c # cs) = replace_from old new k cs"
| "replace_from old new 0 (c # cs) =
     (if prefix old (c # cs) then new @ replace_from old new (length old - 1) cs
      else c # replace_from old new 0 cs)"

definition replace :: "string \<Rightarrow> string \<Rightarrow> string \<Rightarrow> string" where
  "replace s old new =
     (if old = [] then new @ concat (map (\<lambda>c. c # new) s) else replace_from old new 0 s)"

text \<open>
  \<^verbatim>\<open>timestamp2str\<close> comes from \<^verbatim>\<open>resources/lib/timeconv.py\<close>, which is not part of the
  sources: it is a parameter \<open>ts2str\<close> of every function that calls it, taking the time
  in seconds and the format (\<open>None\<close> when the call leaves the format to its default).
\<close>

type_synonym ts2str = "rat \<Rightarrow> string option \<Rightarrow> string"

section \<open>Artwork and genres\<close>

text \<open>An image of a payload: \<^verbatim>\<open>{'type': ..., 'url': ...}\<close>.\<close>

record image =
  img_type :: "string option"
  img_url :: "string option"

text \<open>
  The dictionary \<^verbatim>\<open>art\<close> of \<^verbatim>\<open>get_art\<close>. The keys \<^verbatim>\<open>icon\<close>, \<^verbatim>\<open>poster\<close>, \<^verbatim>\<open>fanart\<close> and
  \<^verbatim>\<open>thumb\<close> are always there and start as Python's \<^verbatim>\<open>None\<close>, which is \<open>None\<close> here; the key
  \<^verbatim>\<open>clearlogo\<close> is there only once a \<^verbatim>\<open>titleLogo\<close> image has set it, and \<open>None\<close> is its
  absence.
\<close>

record art =
  art_icon :: "string option"
  art_poster :: "string option"
  art_fanart :: "string option"
  art_thumb :: "string option"
  art_clearlogo :: "string option"

definition image_url :: "string \<Rightarrow> string" where
  "image_url url = replace url ''?language'' ''/400?language''"

text \<open>The state of the loop of \<^verbatim>\<open>get_art\<close>: \<^verbatim>\<open>art\<close>, \<^verbatim>\<open>title34\<close> and \<^verbatim>\<open>nontitle34\<close>.\<close>

type_synonym art_state = "art \<times> string option \<times> string option"

text \<open>
  The \<^verbatim>\<open>if\<close>/\<^verbatim>\<open>elif\<close> chain on the image's type. \<^verbatim>\<open>i['url']\<close> is read only in a branch
  that is taken.
\<close>

definition get_art_dispatch :: "image \<Rightarrow> art_state \<Rightarrow> error + art_state" where
  "get_art_dispatch i s =
     (case s of (art, title34, nontitle34) \<Rightarrow>
       ebind (req ''type'' (img_type i)) (\<lambda>ty.
         if ty = ''titleArt34'' then
           ebind (req ''url'' (img_url i)) (\<lambda>u. Inr (art, Some (image_url u), nontitle34))
         else if ty = ''nonTitleArt34'' then
           ebind (req ''url'' (img_url i)) (\<lambda>u. Inr (art, title34, Some (image_url u)))
         else if ty = ''titleArt169'' then
           ebind (req ''url'' (img_url i)) (\<lambda>u. Inr (art\<lparr>art_poster := Some (image_url u)\<rparr>, title34, nontitle34))
         else if ty = ''landscape'' then
           ebind (req ''url'' (img_url i)) (\<lambda>u. Inr (art\<lparr>art_fanart := Some (image_url u)\<rparr>, title34, nontitle34))
         else if ty = ''titleLogo'' then
           ebind (req ''url'' (img_url i)) (\<lambda>u. Inr (art\<lparr>art_clearlogo := Some (image_url u)\<rparr>, title34, nontitle34))
         else if ty = ''scene169'' then
           ebind (req ''url'' (img_url i)) (\<lambda>u. Inr (art\<lparr>art_thumb := Some (image_url u)\<rparr>, title34, nontitle34))
         else Inr (art, title34, nontitle34)))"

text \<open>
  The three statements that follow the chain. They stand inside the loop body, at the
  indentation of the chain, so they run once per image, after the image was read.
\<close>

definition get_art_fallback :: "art_state \<Rightarrow> art_state" where
  "get_art_fallback s =
     (case s of (art, title34, nontitle34) \<Rightarrow>
       let art = (if truthy title34 \<and> \<not> truthy (art_poster art)
                  then art\<lparr>art_poster := title34\<rparr> else art);
           art = (if truthy nontitle34 \<and> \<not> truthy (art_poster art)
                  then art\<lparr>art_poster := nontitle34\<rparr> else art);
           art = (if \<not> truthy (art_thumb art)
                  then art\<lparr>art_thumb := art_poster art\<rparr> else art)
       in (art, title34, nontitle34))"

fun get_art_loop :: "image list \<Rightarrow> art_state \<Rightarrow> error + art_state" where
  "get_art_loop [] s = Inr s"
| "get_art_loop (i # images) s =
     ebind (get_art_dispatch i s) (\<lambda>s'. get_art_loop images (get_art_fallback s'))"

definition art0 :: art where
  "art0 = \<lparr> art_icon = None, art_poster = None, art_fanart = None, art_thumb = None,
            art_clearlogo = None \<rparr>"

definition get_art :: "image list \<Rightarrow> error + art" where
  "get_art images = ebind (get_art_loop images (art0, None, None)) (\<lambda>s. Inr (fst s))"

record subgenre =
  sg_title :: "string option"

record genre =
  gn_subgenre :: "subgenre list option"

text \<open>
  \<^verbatim>\<open>get_genres\<close>: the title of the first subgenre of every genre that has one.
\<close>

fun get_genres :: "genre list \<Rightarrow> error + string list" where
  "get_genres [] = Inr []"
| "get_genres (d # genres) =
     ebind (case gn_subgenre d of
              None \<Rightarrow> Inr []
            | Some [] \<Rightarrow> Inr []
            | Some (sg # _) \<Rightarrow> ebind (req ''title'' (sg_title sg)) (\<lambda>title. Inr [title])) (\<lambda>r.
     ebind (get_genres genres) (\<lambda>res. Inr (r @ res)))"

section \<open>Catalogue normalisation\<close>

text \<open>
  The items \<^verbatim>\<open>parse_catalog\<close> and \<^verbatim>\<open>parse_item\<close> build are dictionaries whose set of keys
  depends on the payload, so the model keeps them as maps from the key to its value:
  \<open>None\<close> is a key the item does not carry, \<open>Some VNone\<close> a key set to Python's \<^verbatim>\<open>None\<close>.
  The dictionary \<^verbatim>\<open>t['art']\<close> is \<^verbatim>\<open>{}\<close> (here \<open>None\<close>) until \<^verbatim>\<open>get_art\<close> replaces it, and
  \<^verbatim>\<open>t['bookmark_metadata']\<close> exists only in the items of \<^verbatim>\<open>parse_item\<close>.
\<close>

datatype val = VNone | VStr string | VInt int | VBool bool | VStrs "string list"

record item =
  it_top :: "string \<rightharpoonup> val"
  it_info :: "string \<rightharpoonup> val"
  it_art :: "art option"
  it_bookmark_metadata :: "(string \<rightharpoonup> val) option"

text \<open>\<^verbatim>\<open>t[k] = v\<close> and \<^verbatim>\<open>t['info'][k] = v\<close>.\<close>

definition set_top :: "string \<Rightarrow> val \<Rightarrow> item \<Rightarrow> item" where
  "set_top k v t = t\<lparr>it_top := (it_top t)(k \<mapsto> v)\<rparr>"

definition set_info :: "string \<Rightarrow> val \<Rightarrow> item \<Rightarrow> item" where
  "set_info k v t = t\<lparr>it_info := (it_info t)(k \<mapsto> v)\<rparr>"

text \<open>\<^verbatim>\<open>d.get(k)\<close> as a value: Python's \<^verbatim>\<open>None\<close> when the key is absent.\<close>

definition get_str :: "string option \<Rightarrow> val" where
  "get_str v = (case v of None \<Rightarrow> VNone | Some s \<Rightarrow> VStr s)"

definition get_int :: "int option \<Rightarrow> val" where
  "get_int v = (case v of None \<Rightarrow> VNone | Some n \<Rightarrow> VInt n)"

text \<open>
  \<^verbatim>\<open>is_subscribed(segments)\<close>: some segment of the session, \<^verbatim>\<open>account['my_segments']\<close>,
  is in the list \<^verbatim>\<open>segments\<close>.
\<close>

fun is_subscribed :: "string list \<Rightarrow> string list \<Rightarrow> bool" where
  "is_subscribed [] segments = False"
| "is_subscribed (s # my_segments) segments =
     (if s \<in> set segments then True else is_subscribed my_segments segments)"

text \<open>
  \<^verbatim>\<open>if 'contentSegments' in e: t['segments'] = ...; t['subscribed'] = ...\<close>, the same two
  statements in \<^verbatim>\<open>parse_catalog\<close> and in \<^verbatim>\<open>parse_item\<close>.
\<close>

definition set_segments :: "string list \<Rightarrow> string list option \<Rightarrow> item \<Rightarrow> item" where
  "set_segments my_segments contentSegments t =
     (case contentSegments of
        None \<Rightarrow> t
      | Some segments \<Rightarrow>
          set_top ''subscribed'' (VBool (is_subscribed my_segments segments))
            (set_top ''segments'' (VStrs segments) t))"

subsection \<open>The rail shape: \<^verbatim>\<open>parse_catalog\<close>\<close>

record link_info =
  li_slug :: "string option"
  li_nodeId :: "string option"

record duration_info =
  du_durationSeconds :: "int option"

record catalog_entry =
  ce_id :: "string option"
  ce_slug :: "string option"
  ce_title :: "string option"
  ce_displayStartTime :: "int option"
  ce_contentSegments :: "string list option"
  ce_type :: "string option"
  ce_linkInfo :: "link_info option"
  ce_linkId :: "string option"
  ce_year :: "int option"
  ce_duration :: "duration_info option"
  ce_durationSeconds :: "int option"
  ce_ottCertificate :: "string option"
  ce_synopsisLong :: "string option"
  ce_images :: "image list option"
  ce_genreList :: "genre list option"
  ce_seriesName :: "string option"
  ce_seasonNumber :: "int option"
  ce_number :: "int option"
  ce_streamPosition :: "int option"

definition item0 :: item where
  "item0 = \<lparr> it_top = Map.empty, it_info = Map.empty, it_art = None,
             it_bookmark_metadata = None \<rparr>"

text \<open>
  The statements of the loop body before the dispatch on \<^verbatim>\<open>e['type']\<close>: identity, title
  (with the start time in front when the entry has one) and entitlement.
\<close>

definition catalog_head :: "ts2str \<Rightarrow> string list \<Rightarrow> catalog_entry \<Rightarrow> error + item" where
  "catalog_head ts2str my_segments e =
     ebind (req ''id'' (ce_id e)) (\<lambda>ident.
     ebind (req ''title'' (ce_title e)) (\<lambda>title.
       let t = set_top ''id'' (VStr ident) item0;
           t = set_top ''slug'' (get_str (ce_slug e)) t;
           t = set_info ''title'' (VStr title) t;
           t = (case ce_displayStartTime e of
                  None \<Rightarrow> t
                | Some ms \<Rightarrow>
                    set_info ''title''
                      (VStr (''[COLOR yellow]'' @ ts2str (of_int ms / 1000) (Some ''%a %d %H:%M'')
                             @ ''[/COLOR] - '' @ title)) t)
       in Inr (set_segments my_segments (ce_contentSegments e) t)))"

text \<open>\<^verbatim>\<open>t['art'] = self.get_art(e['images'])\<close> and \<^verbatim>\<open>t['info']['genre'] = self.get_genres(e['genreList'])\<close>.\<close>

definition catalog_art_genre :: "catalog_entry \<Rightarrow> item \<Rightarrow> error + item" where
  "catalog_art_genre e t =
     ebind (req ''images'' (ce_images e)) (\<lambda>images.
     ebind (get_art images) (\<lambda>a.
     ebind (req ''genreList'' (ce_genreList e)) (\<lambda>genres.
     ebind (get_genres genres) (\<lambda>g.
       Inr (set_info ''genre'' (VStrs g) (t\<lparr>it_art := Some a\<rparr>))))))"

text \<open>The branch of the four playable asset types.\<close>

definition catalog_asset :: "catalog_entry \<Rightarrow> string \<Rightarrow> item \<Rightarrow> error + item" where
  "catalog_asset e ty t =
     (let t = set_top ''type'' (VStr ''movie'') t;
          t = set_info ''mediatype'' (VStr ''movie'') t;
          t = set_info ''year'' (get_int (ce_year e)) t
      in
      ebind (case ce_duration e of
               Some d \<Rightarrow> ebind (req ''durationSeconds'' (du_durationSeconds d)) (\<lambda>n.
                           Inr (set_info ''duration'' (VInt n) t))
             | None \<Rightarrow> (case ce_durationSeconds e of
                          Some n \<Rightarrow> Inr (set_info ''duration'' (VInt n) t)
                        | None \<Rightarrow> Inr t)) (\<lambda>t.
      let t = set_info ''mpaa'' (get_str (ce_ottCertificate e)) t;
          t = set_info ''plot'' (get_str (ce_synopsisLong e)) t
      in
      ebind (catalog_art_genre e t) (\<lambda>t.
      ebind (if ty = ''ASSET/EPISODE'' then
               ebind (req ''seriesName'' (ce_seriesName e)) (\<lambda>series.
               ebind (req ''seasonNumber'' (ce_seasonNumber e)) (\<lambda>season.
               ebind (req ''number'' (ce_number e)) (\<lambda>number.
                 Inr (set_info ''episode'' (VInt number)
                       (set_info ''season'' (VInt season)
                         (set_info ''tvshowtitle'' (VStr series)
                           (set_info ''mediatype'' (VStr ''episode'') t)))))))
             else Inr t) (\<lambda>t.
        Inr (case ce_streamPosition e of
               None \<Rightarrow> t
             | Some pos \<Rightarrow> set_top ''stream_position'' (VInt pos) t)))))"

text \<open>
  One pass of the loop body of \<^verbatim>\<open>parse_catalog\<close>: \<open>Some t\<close> when the item is appended
  to the result, \<open>None\<close> when the entry is only logged. The log line of a link without
  \<^verbatim>\<open>linkInfo\<close> reads \<^verbatim>\<open>e['linkId']\<close>.
\<close>

definition parse_catalog_entry :: "ts2str \<Rightarrow> string list \<Rightarrow> catalog_entry \<Rightarrow> error + item option" where
  "parse_catalog_entry ts2str my_segments e =
     ebind (catalog_head ts2str my_segments e) (\<lambda>t.
     ebind (req ''type'' (ce_type e)) (\<lambda>ty.
       if ty = ''CATALOGUE/COLLECTION'' then
         Inr (Some (set_top ''type'' (VStr ''category'') t))
       else if ty = ''CATALOGUE/LINK'' then
         (let t = set_top ''type'' (VStr ''category'') t in
          case ce_linkInfo e of
            Some li \<Rightarrow>
              ebind (req ''slug'' (li_slug li)) (\<lambda>slug.
              ebind (req ''nodeId'' (li_nodeId li)) (\<lambda>node.
                Inr (Some (set_top ''id'' (VStr node) (set_top ''slug'' (VStr slug) t)))))
          | None \<Rightarrow> ebind (req ''linkId'' (ce_linkId e)) (\<lambda>_. Inr None))
       else if ty \<in> set [''ASSET/PROGRAMME'', ''ASSET/SLE'', ''ASSET/SHORTFORM/CLIP'', ''ASSET/EPISODE''] then
         ebind (catalog_asset e ty t) (\<lambda>t. Inr (Some t))
       else if ty = ''CATALOGUE/SERIES'' then
         (let t = set_top ''type'' (VStr ''series'') t;
              t = set_info ''mediatype'' (VStr ''tvshow'') t;
              t = set_info ''mpaa'' (get_str (ce_ottCertificate e)) t;
              t = set_info ''plot'' (get_str (ce_synopsisLong e)) t
          in ebind (catalog_art_genre e t) (\<lambda>t. Inr (Some t)))
       else Inr None))"

fun parse_catalog :: "ts2str \<Rightarrow> string list \<Rightarrow> catalog_entry list \<Rightarrow> error + item list" where
  "parse_catalog ts2str my_segments [] = Inr []"
| "parse_catalog ts2str my_segments (e # data) =
     ebind (parse_catalog_entry ts2str my_segments e) (\<lambda>r.
     ebind (parse_catalog ts2str my_segments data) (\<lambda>res.
       Inr (case r of None \<Rightarrow> res | Some t \<Rightarrow> t # res)))"

subsection \<open>The graph shape: \<^verbatim>\<open>parse_item\<close>\<close>

record media_format =
  fm_contentId :: "string option"
  fm_startOfCredits :: "int option"

record attributes =
  at_slug :: "string option"
  at_title :: "string option"
  at_images :: "image list option"
  at_genres :: "string list option"
  at_synopsisLong :: "string option"
  at_seriesName :: "string option"
  at_seasonNumber :: "int option"
  at_episodeNumber :: "int option"
  at_durationSeconds :: "int option"
  at_ottCertificate :: "string option"
  at_formats :: "(string \<rightharpoonup> media_format) option"
  at_providerVariantId :: "string option"
  at_programmeUuid :: "string option"
  at_seriesUuid :: "string option"
  at_providerSeriesId :: "string option"
  at_contentSegments :: "string list option"

record graph_item =
  gi_id :: "string option"
  gi_type :: "string option"
  gi_year :: "int option"
  gi_attributes :: "attributes option"

definition set_bookmark :: "string \<Rightarrow> val \<Rightarrow> item \<Rightarrow> item" where
  "set_bookmark k v t =
     t\<lparr>it_bookmark_metadata :=
         Some ((case it_bookmark_metadata t of None \<Rightarrow> Map.empty | Some m \<Rightarrow> m)(k \<mapsto> v))\<rparr>"

text \<open>The statements of \<^verbatim>\<open>parse_item\<close> before the dispatch on \<^verbatim>\<open>e['type']\<close>.\<close>

definition item_head :: "graph_item \<Rightarrow> attributes \<Rightarrow> error + item" where
  "item_head e att =
     ebind (req ''id'' (gi_id e)) (\<lambda>ident.
     ebind (req ''slug'' (at_slug att)) (\<lambda>slug.
     ebind (req ''title'' (at_title att)) (\<lambda>title.
     ebind (req ''images'' (at_images att)) (\<lambda>images.
     ebind (get_art images) (\<lambda>a.
     ebind (req ''genres'' (at_genres att)) (\<lambda>genres.
       Inr (set_info ''genre'' (VStrs genres)
             (set_info ''title'' (VStr title)
               (set_top ''slug'' (VStr slug)
                 (set_top ''id'' (VStr ident) item0)))
             \<lparr>it_art := Some a, it_bookmark_metadata := Some Map.empty\<rparr>)))))))"

text \<open>The first \<^verbatim>\<open>if\<close>/\<^verbatim>\<open>elif\<close> chain on \<^verbatim>\<open>e['type']\<close>.\<close>

definition item_kind :: "graph_item \<Rightarrow> attributes \<Rightarrow> string \<Rightarrow> item \<Rightarrow> error + item" where
  "item_kind e att ty t =
     (if ty = ''CATALOGUE/SERIES'' then
        Inr (set_info ''plot'' (get_str (at_synopsisLong att))
              (set_info ''mediatype'' (VStr ''tvshow'')
                (set_top ''type'' (VStr ''series'') t)))
      else if ty = ''CATALOGUE/SEASON'' then
        ebind (req ''seriesName'' (at_seriesName att)) (\<lambda>series.
        ebind (req ''seasonNumber'' (at_seasonNumber att)) (\<lambda>season.
          Inr (set_info ''season'' (VInt season)
                (set_info ''tvshowtitle'' (VStr series)
                  (set_info ''mediatype'' (VStr ''season'')
                    (set_top ''type'' (VStr ''season'') t))))))
      else if ty = ''ASSET/EPISODE'' then
        ebind (req ''seriesName'' (at_seriesName att)) (\<lambda>series.
        ebind (req ''seasonNumber'' (at_seasonNumber att)) (\<lambda>season.
        ebind (req ''episodeNumber'' (at_episodeNumber att)) (\<lambda>episode.
          Inr (set_info ''episode'' (VInt episode)
                (set_info ''season'' (VInt season)
                  (set_info ''tvshowtitle'' (VStr series)
                    (set_info ''mediatype'' (VStr ''episode'')
                      (set_top ''type'' (VStr ''movie'') t))))))))
      else if ty = ''ASSET/PROGRAMME'' then
        Inr (set_info ''year'' (get_int (gi_year e))
              (set_info ''mediatype'' (VStr ''movie'')
                (set_top ''type'' (VStr ''movie'') t)))
      else Inr t)"

text \<open>
  \<^verbatim>\<open>if 'formats' in att:\<close> with its preference of the format \<^verbatim>\<open>HD\<close> over \<^verbatim>\<open>SD\<close>.
\<close>

definition item_formats :: "attributes \<Rightarrow> item \<Rightarrow> error + item" where
  "item_formats att t =
     (case at_formats att of
        None \<Rightarrow> Inr t
      | Some formats \<Rightarrow>
          (case formats ''HD'' of
             Some f_hd \<Rightarrow>
               ebind (req ''contentId'' (fm_contentId f_hd)) (\<lambda>cid.
                 let t = set_top ''content_id'' (VStr cid) t in
                 Inr (case fm_startOfCredits f_hd of
                        None \<Rightarrow> t
                      | Some soc \<Rightarrow> set_bookmark ''startOfCredits'' (VInt soc) t))
           | None \<Rightarrow>
               (case formats ''SD'' of
                  Some f_sd \<Rightarrow>
                    ebind (req ''contentId'' (fm_contentId f_sd)) (\<lambda>cid.
                      Inr (set_top ''content_id'' (VStr cid) t))
                | None \<Rightarrow> Inr t)))"

definition playable_types :: "string list" where
  "playable_types = [''ASSET/PROGRAMME'', ''ASSET/EPISODE'', ''ASSET/SLE'', ''ASSET/SHORTFORM/CLIP'']"

text \<open>The block under \<^verbatim>\<open>if e['type'] in [...]\<close>, for the playable types.\<close>

definition item_playable :: "attributes \<Rightarrow> string \<Rightarrow> item \<Rightarrow> error + item" where
  "item_playable att ty t =
     (if ty \<in> set playable_types then
        ebind (req ''synopsisLong'' (at_synopsisLong att)) (\<lambda>plot.
        ebind (req ''durationSeconds'' (at_durationSeconds att)) (\<lambda>dur.
          let t = set_info ''plot'' (VStr plot) t;
              t = set_info ''duration'' (VInt dur) t;
              t = set_info ''mpaa'' (get_str (at_ottCertificate att)) t
          in ebind (item_formats att t) (\<lambda>t.
               Inr (set_top ''provider_variant_id'' (get_str (at_providerVariantId att)) t))))
      else Inr t)"

text \<open>The last statements: uuid, series id of the bookmark, entitlement.\<close>

definition item_tail :: "string list \<Rightarrow> attributes \<Rightarrow> item \<Rightarrow> item" where
  "item_tail my_segments att t =
     (let t = (case at_programmeUuid att of
                 Some u \<Rightarrow> set_top ''uuid'' (VStr u) t
               | None \<Rightarrow> (case at_seriesUuid att of
                            Some u \<Rightarrow> set_top ''uuid'' (VStr u) t
                          | None \<Rightarrow> t));
          t = (case at_providerSeriesId att of
                 Some s \<Rightarrow> set_bookmark ''providerSeriesId'' (VStr s) t
               | None \<Rightarrow> t)
      in set_segments my_segments (at_contentSegments att) t)"

definition parse_item :: "string list \<Rightarrow> graph_item \<Rightarrow> error + item" where
  "parse_item my_segments e =
     ebind (req ''attributes'' (gi_attributes e)) (\<lambda>att.
     ebind (item_head e att) (\<lambda>t.
     ebind (req ''type'' (gi_type e)) (\<lambda>ty.
     ebind (item_kind e att ty t) (\<lambda>t.
     ebind (item_playable att ty t) (\<lambda>t.
       Inr (item_tail my_segments att t))))))"

fun parse_items :: "string list \<Rightarrow> graph_item list \<Rightarrow> error + item list" where
  "parse_items my_segments [] = Inr []"
| "parse_items my_segments (e # data) =
     ebind (parse_item my_segments e) (\<lambda>t.
     ebind (parse_items my_segments data) (\<lambda>res. Inr (t # res)))"

section \<open>The programme guide\<close>

text \<open>The raw guide, as \<^verbatim>\<open>download_epg\<close> returns it.\<close>

record schedule_data =
  sd_title :: "string option"
  sd_description :: "string option"
  sd_images :: "(string \<rightharpoonup> string) option"
  sd_contentId :: "string option"
  sd_providerVariantId :: "string option"

record schedule_item =
  si_startTimeUTC :: "int option"
  si_durationSeconds :: "int option"
  si_data :: "schedule_data option"

text \<open>
  A schedule entry of the index, the dictionary \<^verbatim>\<open>t\<close> of \<^verbatim>\<open>get_epg\<close>. The fields
  \<open>p_plot\<close>, \<open>p_poster\<close>, \<open>p_content_id\<close> and \<open>p_provider_variant_id\<close> hold \<open>None\<close>
  for Python's \<^verbatim>\<open>None\<close>.
\<close>

record epg_entry =
  p_start :: int
  p_end :: int
  p_start_str :: string
  p_end_str :: string
  p_date_str :: string
  p_title :: string
  p_plot :: "string option"
  p_duration :: int
  p_poster :: "string option"
  p_content_id :: "string option"
  p_provider_variant_id :: "string option"

text \<open>
  \<^verbatim>\<open>find_image\<close>: the first of the labels whose URL is true; when none is, the loop
  leaves the last value read in \<^verbatim>\<open>url\<close>.
\<close>

fun find_image_loop :: "(string \<rightharpoonup> string) \<Rightarrow> string list \<Rightarrow> string option \<Rightarrow> string option" where
  "find_image_loop d [] url = url"
| "find_image_loop d (label # labels) url =
     (let url = d label in if truthy url then url else find_image_loop d labels url)"

definition find_image :: "(string \<rightharpoonup> string) \<Rightarrow> string option" where
  "find_image d =
     (let url = find_image_loop d [''16-9'', ''scene169'', ''landscape''] None
      in if truthy url then map_option (\<lambda>u. replace u ''?'' ''/400?'') url else url)"

text \<open>The body of the inner loop of \<^verbatim>\<open>get_epg\<close>: one schedule item to one entry.\<close>

definition epg_entry_of :: "ts2str \<Rightarrow> schedule_item \<Rightarrow> error + epg_entry" where
  "epg_entry_of ts2str i =
     ebind (req ''startTimeUTC'' (si_startTimeUTC i)) (\<lambda>start.
     ebind (req ''durationSeconds'' (si_durationSeconds i)) (\<lambda>dur.
     ebind (req ''data'' (si_data i)) (\<lambda>d.
     ebind (req ''title'' (sd_title d)) (\<lambda>title.
       Inr \<lparr> p_start = start,
             p_end = start + dur,
             p_start_str = ts2str (of_int start) None,
             p_end_str = ts2str (of_int (start + dur)) None,
             p_date_str = ts2str (of_int start) (Some ''%a %d %H:%M''),
             p_title = title,
             p_plot = sd_description d,
             p_duration = dur,
             p_poster = (case sd_images d of None \<Rightarrow> None | Some imgs \<Rightarrow> find_image imgs),
             p_content_id = sd_contentId d,
             p_provider_variant_id = sd_providerVariantId d \<rparr>))))"

fun epg_entries :: "ts2str \<Rightarrow> schedule_item list \<Rightarrow> error + epg_entry list" where
  "epg_entries ts2str [] = Inr []"
| "epg_entries ts2str (i # items) =
     ebind (epg_entry_of ts2str i) (\<lambda>t.
     ebind (epg_entries ts2str items) (\<lambda>ts. Inr (t # ts)))"

record guide_channel =
  gc_serviceKey :: "string option"
  gc_scheduleItems :: "schedule_item list option"
  gc_rank :: "int option"
  gc_name :: "string option"
  gc_id :: "string option"
  gc_images :: "image list option"
  gc_type :: "string option"

record guide =
  g_channels :: "guide_channel list option"

type_synonym epg_index = "string \<rightharpoonup> epg_entry list"

text \<open>
  The outer loop of \<^verbatim>\<open>get_epg\<close>: \<^verbatim>\<open>res[id] = []\<close> and then one append per schedule item,
  so a service key met twice keeps the entries of its last channel.
\<close>

fun get_epg_loop :: "ts2str \<Rightarrow> guide_channel list \<Rightarrow> epg_index \<Rightarrow> error + epg_index" where
  "get_epg_loop ts2str [] res = Inr res"
| "get_epg_loop ts2str (c # cs) res =
     ebind (req ''serviceKey'' (gc_serviceKey c)) (\<lambda>ident.
     ebind (req ''scheduleItems'' (gc_scheduleItems c)) (\<lambda>items.
     ebind (epg_entries ts2str items) (\<lambda>ts.
       get_epg_loop ts2str cs (res(ident \<mapsto> ts)))))"

definition get_epg :: "ts2str \<Rightarrow> guide \<Rightarrow> error + epg_index" where
  "get_epg ts2str epg =
     ebind (req ''channels'' (g_channels epg)) (\<lambda>cs. get_epg_loop ts2str cs Map.empty)"

text \<open>
  \<^verbatim>\<open>find_program_epg(epg, service_key, timestamp=None)\<close>. The clock \<^verbatim>\<open>time.time()\<close> is the
  parameter \<open>now\<close>. A timestamp is a number of seconds, whole or not; \<^verbatim>\<open>not timestamp\<close>
  holds of \<^verbatim>\<open>None\<close> and of zero.
\<close>

definition timestamp_or_now :: "rat \<Rightarrow> rat option \<Rightarrow> rat" where
  "timestamp_or_now now timestamp =
     (case timestamp of None \<Rightarrow> now | Some t \<Rightarrow> if t = 0 then now else t)"

definition covers :: "epg_entry \<Rightarrow> rat \<Rightarrow> bool" where
  "covers p timestamp = (of_int (p_start p) \<le> timestamp \<and> timestamp \<le> of_int (p_end p))"

fun find_program_loop :: "epg_entry list \<Rightarrow> rat \<Rightarrow> epg_entry option" where
  "find_program_loop [] timestamp = None"
| "find_program_loop (p # ps) timestamp =
     (if covers p timestamp then Some p else find_program_loop ps timestamp)"

definition find_program_epg :: "rat \<Rightarrow> epg_index \<Rightarrow> string \<Rightarrow> rat option \<Rightarrow> error + epg_entry option" where
  "find_program_epg now epg service_key timestamp =
     (let ident = service_key;
          timestamp = timestamp_or_now now timestamp
      in ebind (req ident (epg ident)) (\<lambda>ps. Inr (find_program_loop ps timestamp)))"

section \<open>The session\<close>

subsection \<open>Documents of the upstream service\<close>

text \<open>The response of the localisation endpoint; its \<^verbatim>\<open>headers\<close> are read with \<^verbatim>\<open>.get\<close>.\<close>

record localisation =
  lo_headers :: "(string \<rightharpoonup> string) option"

text \<open>A profile as \<^verbatim>\<open>get_profiles\<close> builds it, the dictionary kept in \<^verbatim>\<open>profile.json\<close>.\<close>

record profile =
  pf_id :: string
  pf_name :: string
  pf_type :: string
  pf_avatar :: string

record avatar_link =
  al_href :: "string option"

record avatar_links =
  als_AvatarWithBackgroundTransparency :: "avatar_link option"

record avatar =
  av_links :: "avatar_links option"

record persona =
  pe_id :: "string option"
  pe_displayName :: "string option"
  pe_type :: "string option"
  pe_avatar :: "avatar option"

record personas_response =
  prs_personas :: "persona list option"

record persona_info =
  pin_displayLanguage :: "string option"

record profile_info =
  pi_persona :: "persona_info option"

record tokens =
  tk_userToken :: "string option"
  tk_description :: "string option"

record segment =
  seg_name :: "string option"

record segmentation =
  sgm_content :: "segment list option"

record me =
  me_segmentation :: "segmentation option"

subsection \<open>The cache\<close>

text \<open>
  What a file of the cache holds: text, or the document that \<^verbatim>\<open>save_json\<close> was given
  and that \<^verbatim>\<open>json.loads\<close> gives back. The code writes every file with one kind of
  content only. A file that holds a document of another kind than its reader expects is
  a corrupt cache, which the model answers with \<open>ValueError\<close>. The menu document,
  which nothing here looks into, is kept as its text.
\<close>

datatype content =
    Text string
  | Localisation localisation
  | Profile profile
  | ProfileInfo profile_info
  | Tokens tokens
  | Me me
  | Searches "string list"
  | Guide guide
  | Menu string

text \<open>The files by path, each with the time it was written.\<close>

type_synonym store = "string \<rightharpoonup> content \<times> rat"

text \<open>
  Modelled from the spec: the class \<^verbatim>\<open>Cache\<close> of \<^verbatim>\<open>resources/lib/cache.py\<close>, which is not
  among the sources. \<^verbatim>\<open>load(key, ttl)\<close> gives the entry when it is there and fresh, that is
  \<open>now - write_time < ttl\<close>; a ttl that is absent or zero means no expiry. A missing key
  is no error.
\<close>

definition load :: "store \<Rightarrow> rat \<Rightarrow> string \<Rightarrow> rat option \<Rightarrow> content option" where
  "load s now key ttl =
     (case s key of
        None \<Rightarrow> None
      | Some (c, written) \<Rightarrow>
          (case ttl of
             None \<Rightarrow> Some c
           | Some n \<Rightarrow> if n = 0 \<or> now - written < n then Some c else None))"

text \<open>
  Modelled from the spec: \<^verbatim>\<open>Cache.load_file\<close>, the pass-through without expiry.
\<close>

definition load_file :: "store \<Rightarrow> string \<Rightarrow> content option" where
  "load_file s key = map_option fst (s key)"

text \<open>
  Modelled from the spec: \<^verbatim>\<open>Cache.save_file\<close> and \<^verbatim>\<open>Cache.save_json\<close>, which write the
  entry with the time of writing.
\<close>

definition save_file :: "store \<Rightarrow> rat \<Rightarrow> string \<Rightarrow> content \<Rightarrow> store" where
  "save_file s now key c = s(key \<mapsto> (c, now))"

definition save_json :: "store \<Rightarrow> rat \<Rightarrow> string \<Rightarrow> content \<Rightarrow> store" where
  "save_json s now key c = s(key \<mapsto> (c, now))"

text \<open>
  Modelled from the spec: \<^verbatim>\<open>Cache.remove_file\<close>; removing a key that is missing is no
  error.
\<close>

definition remove_file :: "store \<Rightarrow> string \<Rightarrow> store" where
  "remove_file s key = s(key := None)"

text \<open>\<^verbatim>\<open>if content:\<close> of what a load returned: nothing and the empty text are false.\<close>

definition content_true :: "content option \<Rightarrow> bool" where
  "content_true c = (case c of None \<Rightarrow> False | Some (Text s) \<Rightarrow> s \<noteq> [] | Some _ \<Rightarrow> True)"

definition text_of :: "content \<Rightarrow> error + string" where
  "text_of c = (case c of Text s \<Rightarrow> Inr s | _ \<Rightarrow> Inl ValueError)"

definition loads_localisation :: "content \<Rightarrow> error + localisation" where
  "loads_localisation c = (case c of Localisation d \<Rightarrow> Inr d | _ \<Rightarrow> Inl ValueError)"

definition loads_profile :: "content \<Rightarrow> error + profile" where
  "loads_profile c = (case c of Profile d \<Rightarrow> Inr d | _ \<Rightarrow> Inl ValueError)"

definition loads_profile_info :: "content \<Rightarrow> error + profile_info" where
  "loads_profile_info c = (case c of ProfileInfo d \<Rightarrow> Inr d | _ \<Rightarrow> Inl ValueError)"

definition loads_tokens :: "content \<Rightarrow> error + tokens" where
  "loads_tokens c = (case c of Tokens d \<Rightarrow> Inr d | _ \<Rightarrow> Inl ValueError)"

definition loads_me :: "content \<Rightarrow> error + me" where
  "loads_me c = (case c of Me d \<Rightarrow> Inr d | _ \<Rightarrow> Inl ValueError)"


definition loads_searches :: "content \<Rightarrow> error + string list" where
  "loads_searches c = (case c of Searches d \<Rightarrow> Inr d | _ \<Rightarrow> Inl ValueError)"

subsection \<open>The state of a session and its surroundings\<close>

datatype platform = Skyshowtime | Peacocktv

definition config_dir :: "platform \<Rightarrow> string" where
  "config_dir p = (case p of Skyshowtime \<Rightarrow> ''skyshowtime'' | Peacocktv \<Rightarrow> ''peacocktv'')"

text \<open>
  The headers of a platform in the table \<^verbatim>\<open>platforms\<close>. A header's value is a string or,
  after an update from a localisation that lacks it, Python's \<^verbatim>\<open>None\<close> (here \<open>None\<close>).
\<close>

type_synonym headers = "string \<rightharpoonup> string option"

definition platform_headers :: "platform \<Rightarrow> headers" where
  "platform_headers p =
     (case p of
        Skyshowtime \<Rightarrow>
          [''x-skyott-activeterritory'' \<mapsto> Some ''ES'',
           ''x-skyott-client-version'' \<mapsto> Some ''4.3.12'',
           ''x-skyott-device'' \<mapsto> Some ''MOBILE'',
           ''x-skyott-language'' \<mapsto> Some ''en-US'',
           ''x-skyott-platform'' \<mapsto> Some ''ANDROID'',
           ''x-skyott-proposition'' \<mapsto> Some ''SKYSHOWTIME'',
           ''x-skyott-provider'' \<mapsto> Some ''SKYSHOWTIME'',
           ''x-skyott-territory'' \<mapsto> Some ''ES'']
      | Peacocktv \<Rightarrow>
          [''x-skyott-activeterritory'' \<mapsto> Some ''US'',
           ''x-skyott-client-version'' \<mapsto> Some ''4.3.12'',
           ''x-skyott-device'' \<mapsto> Some ''MOBILE'',
           ''x-skyott-language'' \<mapsto> Some ''en'',
           ''x-skyott-platform'' \<mapsto> Some ''ANDROID'',
           ''x-skyott-proposition'' \<mapsto> Some ''NBCUOTT'',
           ''x-skyott-provider'' \<mapsto> Some ''NBCU'',
           ''x-skyott-territory'' \<mapsto> Some ''US''])"

text \<open>
  \<^verbatim>\<open>account['cookie']\<close> under Python 3: the bytes that \<^verbatim>\<open>__init__\<close> read from the cookie
  file, or the string that \<^verbatim>\<open>login\<close> joined from the cookie jar. The characters of a
  file's text stand for its bytes.
\<close>

datatype cookie = Bytes string | Str string

text \<open>\<^verbatim>\<open>if self.account['cookie']\<close>: \<^verbatim>\<open>None\<close> and the empty cookie are false.\<close>

definition cookie_true :: "cookie option \<Rightarrow> bool" where
  "cookie_true c = (case c of None \<Rightarrow> False | Some (Bytes s) \<Rightarrow> s \<noteq> [] | Some (Str s) \<Rightarrow> s \<noteq> [])"

text \<open>The body that \<^verbatim>\<open>get_tokens\<close> posts, with the cookie of its headers.\<close>

record token_request =
  tr_cookie :: "cookie option"
  tr_provider :: "string option"
  tr_providerTerritory :: "string option"
  tr_proposition :: "string option"
  tr_personaId :: "string option"
  tr_device_id :: "string option"

text \<open>
  The state the methods read and write: the attributes of the instance (\<^verbatim>\<open>logged\<close>,
  \<^verbatim>\<open>net.headers\<close>, \<^verbatim>\<open>get_token_error\<close>, \<^verbatim>\<open>search_list\<close>), the dictionaries of the class that
  every instance shares (\<^verbatim>\<open>account\<close> and the chosen entry of \<^verbatim>\<open>platforms\<close>), the files of the
  cache, and the requests sent to the token endpoint so far. \<open>None\<close> in the fields of
  \<^verbatim>\<open>account\<close> is Python's \<^verbatim>\<open>None\<close>.
\<close>

record state =
  st_logged :: bool
  st_cookie :: "cookie option"
  st_profile_id :: "string option"
  st_profile_type :: "string option"
  st_my_segments :: "string list"
  st_user_token :: "string option"
  st_headers :: headers
  st_device_id :: "string option"
  st_net_headers :: headers
  st_get_token_error :: string
  st_search_list :: "string list"
  st_store :: store
  st_mints :: "token_request list"

text \<open>The class as Python defines it, before any instance: a new process.\<close>

definition state0 :: "platform \<Rightarrow> store \<Rightarrow> state" where
  "state0 p files =
     \<lparr> st_logged = False, st_cookie = None, st_profile_id = None, st_profile_type = None,
       st_my_segments = [], st_user_token = None, st_headers = platform_headers p,
       st_device_id = None, st_net_headers = Map.empty, st_get_token_error = [],
       st_search_list = [], st_store = files, st_mints = [] \<rparr>"

text \<open>
  What the session cannot compute itself: the transport's answers (\<^verbatim>\<open>resources/lib/network.py\<close>
  is not among the sources, and the service is remote), the user agent, and the random
  device id that \<^verbatim>\<open>create_device_id\<close> draws. The token endpoint answers to the request it
  is sent; the login endpoint answers with its cookie jar and body.
\<close>

record login_response =
  lr_cookies :: "(string \<times> string) list"
  lr_content :: string

record upstream =
  up_user_agent :: string
  up_create_device_id :: string
  up_localisation :: localisation
  up_profiles :: personas_response
  up_profile_info :: "string \<Rightarrow> profile_info"
  up_tokens :: "token_request \<Rightarrow> tokens"
  up_me :: me
  up_login :: "string \<Rightarrow> string \<Rightarrow> login_response"

subsection \<open>Requests\<close>

text \<open>\<^verbatim>\<open>self.platform['headers'][k]\<close>.\<close>

definition header :: "state \<Rightarrow> string \<Rightarrow> error + string option" where
  "header st k = req k (st_headers st k)"

definition get_localisation :: "upstream \<Rightarrow> state \<Rightarrow> error + localisation" where
  "get_localisation up st =
     ebind (header st ''x-skyott-provider'') (\<lambda>_.
     ebind (header st ''x-skyott-proposition'') (\<lambda>_.
       Inr (up_localisation up)))"

text \<open>One persona of the response to one profile, the loop body of \<^verbatim>\<open>get_profiles\<close>.\<close>

definition profile_of :: "persona \<Rightarrow> error + profile" where
  "profile_of d =
     ebind (req ''id'' (pe_id d)) (\<lambda>ident.
     ebind (req ''displayName'' (pe_displayName d)) (\<lambda>name.
     ebind (req ''type'' (pe_type d)) (\<lambda>ty.
     ebind (req ''avatar'' (pe_avatar d)) (\<lambda>av.
     ebind (req ''links'' (av_links av)) (\<lambda>links.
     ebind (req ''AvatarWithBackgroundTransparency'' (als_AvatarWithBackgroundTransparency links)) (\<lambda>link.
     ebind (req ''href'' (al_href link)) (\<lambda>href.
       Inr \<lparr> pf_id = ident, pf_name = name, pf_type = ty,
             pf_avatar = replace href ''{width}/{height}'' ''400'' \<rparr>)))))))"

fun profiles_of :: "persona list \<Rightarrow> error + profile list" where
  "profiles_of [] = Inr []"
| "profiles_of (d # ds) =
     ebind (profile_of d) (\<lambda>p.
     ebind (profiles_of ds) (\<lambda>res. Inr (p # res)))"

definition get_profiles :: "upstream \<Rightarrow> state \<Rightarrow> error + profile list" where
  "get_profiles up st =
     (case prs_personas (up_profiles up) of
        None \<Rightarrow> Inr []
      | Some personas \<Rightarrow> profiles_of personas)"

definition get_profile_info :: "upstream \<Rightarrow> state \<Rightarrow> string \<Rightarrow> profile_info" where
  "get_profile_info up st profile_id = up_profile_info up profile_id"

definition get_me :: "upstream \<Rightarrow> state \<Rightarrow> me" where
  "get_me up st = up_me up"

text \<open>
  \<^verbatim>\<open>get_tokens\<close>: the request is built from the cookie, three headers of the platform, the
  profile id of the account and the device id; the state keeps a record of the request.
\<close>

definition get_tokens :: "upstream \<Rightarrow> state \<Rightarrow> error + tokens \<times> state" where
  "get_tokens up st =
     ebind (header st ''x-skyott-provider'') (\<lambda>provider.
     ebind (header st ''x-skyott-territory'') (\<lambda>territory.
     ebind (header st ''x-skyott-proposition'') (\<lambda>proposition.
       let post_data = \<lparr> tr_cookie = st_cookie st, tr_provider = provider,
                          tr_providerTerritory = territory, tr_proposition = proposition,
                          tr_personaId = st_profile_id st, tr_device_id = st_device_id st \<rparr>
       in Inr (up_tokens up post_data, st\<lparr>st_mints := st_mints st @ [post_data]\<rparr>))))"

subsection \<open>Bootstrap: \<^verbatim>\<open>__init__\<close>\<close>

text \<open>\<^verbatim>\<open>bytes.strip()\<close>: ASCII white space off both ends.\<close>

definition is_space :: "char \<Rightarrow> bool" where
  "is_space c = (c \<in> set [CHR '' '', CHR 0x09, CHR 0x0A, CHR 0x0B, CHR 0x0C, CHR 0x0D])"

definition strip :: "string \<Rightarrow> string" where
  "strip s = rev (dropWhile is_space (rev (dropWhile is_space s)))"

text \<open>
  \<^verbatim>\<open>re.search(b'hterr=([A-Z]{2})', cookie)\<close>: the group of the leftmost match, \<open>None\<close>
  when nothing matches.
\<close>

definition is_capital :: "char \<Rightarrow> bool" where
  "is_capital c = (c \<in> set ''ABCDEFGHIJKLMNOPQRSTUVWXYZ'')"

definition match_hterr :: "string \<Rightarrow> string option" where
  "match_hterr s =
     (if prefix ''hterr='' s then
        (case drop 6 s of
           a # b # _ \<Rightarrow> if is_capital a \<and> is_capital b then Some [a, b] else None
         | _ \<Rightarrow> None)
      else None)"

fun search_hterr :: "string \<Rightarrow> string option" where
  "search_hterr [] = None"
| "search_hterr (c # cs) =
     (case match_hterr (c # cs) of Some g \<Rightarrow> Some g | None \<Rightarrow> search_hterr cs)"

text \<open>
  The first statements: \<^verbatim>\<open>self.logged\<close>, and the default headers of the transport. The
  new instance has no \<^verbatim>\<open>get_token_error\<close> of its own yet, so it reads the one of the class,
  the empty string.
\<close>

definition init_start :: "upstream \<Rightarrow> state \<Rightarrow> state" where
  "init_start up st =
     st\<lparr> st_logged := False,
         st_get_token_error := [],
         st_net_headers :=
           [''Accept'' \<mapsto> Some ''application/json, text/javascript, */*; q=0.01'',
            ''User-Agent'' \<mapsto> Some (up_user_agent up)] \<rparr>"

text \<open>\<^verbatim>\<open># Load cookie\<close>\<close>

definition init_cookie :: "platform \<Rightarrow> state \<Rightarrow> error + state" where
  "init_cookie p st =
     (let content = load_file (st_store st) (config_dir p @ ''/cookie.conf'') in
      if content_true content then
        ebind (text_of (the content)) (\<lambda>text.
          Inr (st\<lparr>st_cookie := Some (Bytes (strip text)), st_logged := True\<rparr>))
      else Inr st)"

text \<open>\<^verbatim>\<open># Load device_id\<close>\<close>

definition init_device_id :: "platform \<Rightarrow> upstream \<Rightarrow> rat \<Rightarrow> state \<Rightarrow> error + state" where
  "init_device_id p up now st =
     (let content = load_file (st_store st) (config_dir p @ ''/device_id.conf'') in
      if content_true content then
        ebind (text_of (the content)) (\<lambda>text. Inr (st\<lparr>st_device_id := Some text\<rparr>))
      else
        (let ident = up_create_device_id up
         in Inr (st\<lparr> st_device_id := Some ident,
                     st_store := save_file (st_store st) now
                                   (config_dir p @ ''/device_id.conf'') (Text ident) \<rparr>)))"

text \<open>
  \<^verbatim>\<open># Get the territory from the cookie\<close>: the new value of the variable \<^verbatim>\<open>territory\<close>.
  The pattern is a bytes pattern, and \<^verbatim>\<open>re.search\<close> raises \<^verbatim>\<open>TypeError\<close> when it is given
  a string to search.
\<close>

definition cookie_territory :: "string option \<Rightarrow> state \<Rightarrow> error + string option" where
  "cookie_territory territory st =
     (if \<not> truthy territory \<and> cookie_true (st_cookie st) then
        (case the (st_cookie st) of
           Bytes cookie \<Rightarrow>
             Inr (case search_hterr cookie of Some code \<Rightarrow> Some code | None \<Rightarrow> territory)
         | Str cookie \<Rightarrow> Inl TypeError)
      else Inr territory)"

text \<open>
  \<^verbatim>\<open># Load localisation\<close>, up to the assignment of \<^verbatim>\<open>extra_headers\<close>: the cached document,
  or the answer of the service, which is cached when it has \<^verbatim>\<open>headers\<close>.
\<close>

definition load_localisation :: "platform \<Rightarrow> upstream \<Rightarrow> rat \<Rightarrow> state \<Rightarrow> error + localisation \<times> state" where
  "load_localisation p up now st =
     (let localisation_filename = config_dir p @ ''/localisation.json'';
          content = load (st_store st) now localisation_filename None
      in
      if content_true content then
        ebind (loads_localisation (the content)) (\<lambda>extra_headers. Inr (extra_headers, st))
      else
        ebind (get_localisation up st) (\<lambda>extra_headers.
          Inr (extra_headers,
               if lo_headers extra_headers \<noteq> None
               then st\<lparr>st_store := save_json (st_store st) now localisation_filename
                                      (Localisation extra_headers)\<rparr>
               else st)))"

text \<open>The update of the platform's headers from \<^verbatim>\<open>extra_headers['headers']\<close>.\<close>

definition apply_localisation :: "localisation \<Rightarrow> state \<Rightarrow> state" where
  "apply_localisation extra_headers st =
     (case lo_headers extra_headers of
        None \<Rightarrow> st
      | Some h \<Rightarrow>
          st\<lparr>st_headers := (st_headers st)
               (''x-skyott-activeterritory'' \<mapsto> h ''x-skyott-activeterritory'',
                ''x-skyott-language'' \<mapsto> h ''x-skyott-language'',
                ''x-skyott-territory'' \<mapsto> h ''x-skyott-territory'')\<rparr>)"

text \<open>
  \<^verbatim>\<open># Override data from localisation if the user set a territory\<close>, and the update of the
  transport's headers that follows it.
\<close>

definition override_territory :: "string option \<Rightarrow> state \<Rightarrow> error + state" where
  "override_territory territory st =
     ebind
       (if truthy territory then
          (let st = st\<lparr>st_headers := (st_headers st)(''x-skyott-territory'' \<mapsto> territory)\<rparr> in
           ebind (header st ''x-skyott-activeterritory'') (\<lambda>active.
             Inr (if active = Some ''XX''
                  then st\<lparr>st_headers := (st_headers st)(''x-skyott-activeterritory'' \<mapsto> territory)\<rparr>
                  else st)))
        else Inr st) (\<lambda>st.
       Inr (st\<lparr>st_net_headers := st_net_headers st ++ st_headers st\<rparr>))"

text \<open>Lines 107 to 134 together: the territory of the session.\<close>

definition init_territory :: "platform \<Rightarrow> upstream \<Rightarrow> rat \<Rightarrow> string option \<Rightarrow> state \<Rightarrow> error + state" where
  "init_territory p up now territory st =
     ebind (cookie_territory territory st) (\<lambda>territory.
     ebind (load_localisation p up now st) (\<lambda>(extra_headers, st).
       override_territory territory (apply_localisation extra_headers st)))"

definition select_default_profile :: "platform \<Rightarrow> upstream \<Rightarrow> rat \<Rightarrow> state \<Rightarrow> error + (string option \<times> string option) \<times> state" where
  "select_default_profile p up now st =
     ebind (get_profiles up st) (\<lambda>profiles.
       case profiles of
         profile # _ \<Rightarrow>
           Inr ((Some (pf_id profile), Some (pf_type profile)),
                st\<lparr>st_store := save_json (st_store st) now (config_dir p @ ''/profile.json'')
                                  (Profile profile)\<rparr>)
       | [] \<Rightarrow> Inr ((None, None), st))"

text \<open>\<^verbatim>\<open># Load profile\<close>, the first half.\<close>

definition init_profile :: "platform \<Rightarrow> upstream \<Rightarrow> rat \<Rightarrow> state \<Rightarrow> error + state" where
  "init_profile p up now st =
     (let content = load_file (st_store st) (config_dir p @ ''/profile.json'') in
      if content_true content then
        ebind (loads_profile (the content)) (\<lambda>profile.
          Inr (st\<lparr> st_profile_id := Some (pf_id profile),
                   st_profile_type := Some (pf_type profile) \<rparr>))
      else
        ebind (select_default_profile p up now st) (\<lambda>((ident, ty), st).
          Inr (st\<lparr>st_profile_id := ident, st_profile_type := ty\<rparr>)))"

text \<open>\<^verbatim>\<open># Load profile\<close>, the second half: the display language of the profile.\<close>

definition init_profile_info :: "platform \<Rightarrow> upstream \<Rightarrow> rat \<Rightarrow> state \<Rightarrow> error + state" where
  "init_profile_info p up now st =
     (if truthy (st_profile_id st) then
        (let profile_info_filename = config_dir p @ ''/profile_info.json'';
             content = load_file (st_store st) profile_info_filename
         in
         ebind (if content_true content then
                  ebind (loads_profile_info (the content)) (\<lambda>data. Inr (data, st))
                else
                  (let data = get_profile_info up st (the (st_profile_id st))
                   in Inr (data, st\<lparr>st_store := save_json (st_store st) now profile_info_filename
                                                  (ProfileInfo data)\<rparr>))) (\<lambda>(data, st).
           case pi_persona data of
             None \<Rightarrow> Inr st
           | Some persona \<Rightarrow>
               (case pin_displayLanguage persona of
                  None \<Rightarrow> Inr st
                | Some language \<Rightarrow>
                    (let st = st\<lparr>st_headers := (st_headers st)(''x-skyott-language'' \<mapsto> Some language)\<rparr>
                     in Inr (st\<lparr>st_net_headers := st_net_headers st ++ st_headers st\<rparr>)))))
      else Inr st)"

text \<open>\<^verbatim>\<open># Load user token\<close>\<close>

definition init_token :: "platform \<Rightarrow> upstream \<Rightarrow> rat \<Rightarrow> state \<Rightarrow> error + state" where
  "init_token p up now st =
     (let token_filename = config_dir p @ ''/token.json'';
          content = load (st_store st) now token_filename (Some 60)
      in
      ebind (if content_true content then
               ebind (loads_tokens (the content)) (\<lambda>data. Inr (data, st))
             else
               ebind (get_tokens up st) (\<lambda>(data, st).
                 let st = (if tk_userToken data \<noteq> None
                           then st\<lparr>st_store := save_json (st_store st) now token_filename (Tokens data)\<rparr>
                           else st);
                     st = (case tk_description data of
                             None \<Rightarrow> st
                           | Some description \<Rightarrow> st\<lparr>st_get_token_error := description\<rparr>)
                 in Inr (data, st))) (\<lambda>(data, st).
        Inr (case tk_userToken data of
               None \<Rightarrow> st
             | Some token \<Rightarrow> st\<lparr>st_user_token := Some token\<rparr>)))"

text \<open>\<^verbatim>\<open># Search\<close>\<close>

definition init_search :: "state \<Rightarrow> error + state" where
  "init_search st =
     (let data = load_file (st_store st) ''searchs.json'' in
      if content_true data then
        ebind (loads_searches (the data)) (\<lambda>l. Inr (st\<lparr>st_search_list := l\<rparr>))
      else Inr (st\<lparr>st_search_list := []\<rparr>))"

fun segment_names :: "segment list \<Rightarrow> error + string list" where
  "segment_names [] = Inr []"
| "segment_names (s # ss) =
     ebind (req ''name'' (seg_name s)) (\<lambda>n.
     ebind (segment_names ss) (\<lambda>ns. Inr (n # ns)))"

text \<open>
  \<^verbatim>\<open># Load my segments\<close>. \<^verbatim>\<open>data.get('segmentation', [])\<close> is a list when the key is absent,
  and a list has no \<^verbatim>\<open>get\<close>.
\<close>

definition init_segments :: "platform \<Rightarrow> upstream \<Rightarrow> rat \<Rightarrow> state \<Rightarrow> error + state" where
  "init_segments p up now st =
     (if truthy (st_user_token st) then
        (let me_filename = config_dir p @ ''/me.json'';
             content = load (st_store st) now me_filename None
         in
         ebind (if content_true content then
                  ebind (loads_me (the content)) (\<lambda>data. Inr (data, st))
                else
                  (let data = get_me up st
                   in Inr (data, st\<lparr>st_store := save_json (st_store st) now me_filename (Me data)\<rparr>))) (\<lambda>(data, st).
           case me_segmentation data of
             None \<Rightarrow> Inl AttributeError
           | Some sg \<Rightarrow>
               ebind (segment_names (case sgm_content sg of None \<Rightarrow> [] | Some l \<Rightarrow> l)) (\<lambda>names.
                 Inr (st\<lparr>st_my_segments := st_my_segments st @ names\<rparr>))))
      else Inr st)"

text \<open>
  \<^verbatim>\<open>__init__(self, config_directory, platform, territory)\<close>, on the state the class is in;
  \<open>now\<close> is the clock during the bootstrap.
\<close>

definition init :: "platform \<Rightarrow> upstream \<Rightarrow> rat \<Rightarrow> string option \<Rightarrow> state \<Rightarrow> error + state" where
  "init p up now territory st =
     ebind (init_cookie p (init_start up st)) (\<lambda>st.
     ebind (init_device_id p up now st) (\<lambda>st.
     ebind (init_territory p up now territory st) (\<lambda>st.
     ebind (init_profile p up now st) (\<lambda>st.
     ebind (init_profile_info p up now st) (\<lambda>st.
     ebind (init_token p up now st) (\<lambda>st.
     ebind (init_search st) (\<lambda>st.
       init_segments p up now st)))))))"

subsection \<open>Login, profile switch and reset\<close>

text \<open>
  The body of the login response as the \<^verbatim>\<open>try\<close> block of \<^verbatim>\<open>login\<close> can read it:
  \<^verbatim>\<open>json.loads\<close> raises (\<open>NotJson\<close>); the value is no object, so it has no \<^verbatim>\<open>get\<close>
  (\<open>NotAnObject\<close>); the object has no \<^verbatim>\<open>properties\<close>, so \<^verbatim>\<open>get\<close> is called on the default
  \<^verbatim>\<open>[]\<close> (\<open>NoProperties\<close>); its \<^verbatim>\<open>properties\<close> are no object (\<open>BadProperties\<close>); or the
  \<^verbatim>\<open>properties\<close> are an object, whose \<^verbatim>\<open>eventType\<close> is a string or is not (\<open>EventType\<close>).
  The parser is the parameter \<open>json_loads\<close>.
\<close>

datatype login_body =
    NotJson
  | NotAnObject
  | NoProperties
  | BadProperties
  | EventType "string option"

text \<open>\<^verbatim>\<open>'; '.join([key + '=' + value for key, value in cookie_dict.items()])\<close>\<close>

fun join_cookies :: "(string \<times> string) list \<Rightarrow> string" where
  "join_cookies [] = []"
| "join_cookies [(key, v)] = key @ ''='' @ v"
| "join_cookies ((key, v) # kvs) = key @ ''='' @ v @ ''; '' @ join_cookies kvs"

text \<open>
  \<^verbatim>\<open>login\<close>. The result is \<open>Some (success, content)\<close> for a returned pair and \<open>None\<close> when
  the function ends without a \<^verbatim>\<open>return\<close>, which in Python returns \<^verbatim>\<open>None\<close>. The bare
  \<^verbatim>\<open>except\<close> turns every exception of the \<^verbatim>\<open>try\<close> block into the pair with \<^verbatim>\<open>False\<close>.
\<close>

definition login :: "platform \<Rightarrow> upstream \<Rightarrow> (string \<Rightarrow> login_body) \<Rightarrow> rat \<Rightarrow> string \<Rightarrow> string \<Rightarrow> state
    \<Rightarrow> error + (bool \<times> string) option \<times> state" where
  "login p up json_loads now username password st =
     ebind (req ''x-skyott-device'' (st_net_headers st ''x-skyott-device'')) (\<lambda>_.
       let response = up_login up username password;
           cookie_string = join_cookies (lr_cookies response);
           content = lr_content response
       in
       case json_loads content of
         EventType event \<Rightarrow>
           if event = Some ''success'' then
             Inr (Some (True, content),
                  st\<lparr> st_cookie := Some (Str cookie_string),
                      st_store := save_file (st_store st) now (config_dir p @ ''/cookie.conf'')
                                    (Text cookie_string) \<rparr>)
           else Inr (None, st)
       | _ \<Rightarrow> Inr (Some (False, content), st))"

definition delete_cookie :: "platform \<Rightarrow> state \<Rightarrow> state" where
  "delete_cookie p st =
     st\<lparr>st_store := remove_file (st_store st) (config_dir p @ ''/cookie.conf'')\<rparr>"

text \<open>\<^verbatim>\<open>for f in files: self.cache.remove_file(self.pldir + '/' + f)\<close>\<close>

fun remove_files :: "string \<Rightarrow> string list \<Rightarrow> store \<Rightarrow> store" where
  "remove_files pldir [] s = s"
| "remove_files pldir (f # files) s = remove_files pldir files (remove_file s (pldir @ ''/'' @ f))"




definition clear_session :: "platform \<Rightarrow> state \<Rightarrow> state" where
  "clear_session p st =
     st\<lparr>st_store :=
          remove_files (config_dir p)
            [''device_id.conf'', ''localisation.json'', ''profile.json'', ''profile_info.json'',
             ''token.json'', ''menu.json'', ''me.json'']
            (st_store st)\<rparr>"

section \<open>The channels with their current programme\<close>

definition loads_guide :: "content \<Rightarrow> error + guide" where
  "loads_guide c = (case c of Guide d \<Rightarrow> Inr d | _ \<Rightarrow> Inl ValueError)"

text \<open>
  \<^verbatim>\<open>download_epg\<close>: the guide of the cache when it is there and younger than 60 seconds,
  otherwise the answer of the guide endpoint, which is cached. The answer the endpoint
  gives to the request of this call is the parameter \<open>answer\<close>, and \<open>now\<close> is the clock
  at the call. The method reads and writes no state but the cache.
\<close>

definition download_epg :: "guide \<Rightarrow> rat \<Rightarrow> store \<Rightarrow> error + guide \<times> store" where
  "download_epg answer now s =
     (let cache_filename = ''cache/epg.json'';
          content = load s now cache_filename (Some 60)
      in
      if content_true content then
        ebind (loads_guide (the content)) (\<lambda>data. Inr (data, s))
      else
        (let data = answer
         in Inr (data, save_json s now cache_filename (Guide data))))"

text \<open>\<^verbatim>\<open>str(n)\<close> of an integer: its decimal digits, after the sign of a negative one.\<close>

fun digits :: "nat \<Rightarrow> string" where
  "digits n =
     (if n < 10 then [''0123456789'' ! n]
      else digits (n div 10) @ [''0123456789'' ! (n mod 10)])"

declare digits.simps [simp del]

definition str :: "int \<Rightarrow> string" where
  "str n = (if n < 0 then CHR ''-'' # digits (nat (- n)) else digits (nat n))"

text \<open>
  A channel, the dictionary \<^verbatim>\<open>t\<close> of \<^verbatim>\<open>get_channels\<close>; \<open>ch_mediatype\<close>, \<open>ch_title\<close>,
  \<open>ch_playcount\<close>, \<open>ch_plot\<close> and \<open>ch_duration\<close> are the keys of \<^verbatim>\<open>t['info']\<close>. The keys
  that only \<^verbatim>\<open>get_channels_with_epg\<close> sets are \<open>None\<close> until it does; the plot it sets
  may be Python's \<^verbatim>\<open>None\<close>, here \<open>Some None\<close>.
\<close>

record channel =
  ch_art :: art
  ch_type :: string
  ch_stream_type :: string
  ch_mediatype :: string
  ch_dial :: string
  ch_title :: string
  ch_channel_name :: string
  ch_id :: string
  ch_service_key :: string
  ch_playcount :: int
  ch_channel_type :: string
  ch_plot :: "string option option"
  ch_duration :: "int option"
  ch_content_id :: "string option"
  ch_provider_variant_id :: "string option"

text \<open>The loop body of \<^verbatim>\<open>get_channels\<close>: one channel of the guide to one channel.\<close>

definition channel_of :: "guide_channel \<Rightarrow> error + channel" where
  "channel_of c =
     ebind (req ''rank'' (gc_rank c)) (\<lambda>rank.
     ebind (req ''name'' (gc_name c)) (\<lambda>name.
     ebind (req ''id'' (gc_id c)) (\<lambda>ident.
     ebind (req ''serviceKey'' (gc_serviceKey c)) (\<lambda>service_key.
     ebind (case gc_images c of None \<Rightarrow> Inr art0 | Some images \<Rightarrow> get_art images) (\<lambda>a.
     ebind (req ''type'' (gc_type c)) (\<lambda>ty.
       Inr \<lparr> ch_art = a, ch_type = ''movie'', ch_stream_type = ''tv'',
             ch_mediatype = ''movie'', ch_dial = str rank,
             ch_title = str rank @ ''. '' @ name, ch_channel_name = name, ch_id = ident,
             ch_service_key = service_key, ch_playcount = 1, ch_channel_type = ty,
             ch_plot = None, ch_duration = None, ch_content_id = None,
             ch_provider_variant_id = None \<rparr>))))))"

fun channels_of :: "guide_channel list \<Rightarrow> error + channel list" where
  "channels_of [] = Inr []"
| "channels_of (c # cs) =
     ebind (channel_of c) (\<lambda>t.
     ebind (channels_of cs) (\<lambda>res. Inr (t # res)))"

text \<open>
  \<^verbatim>\<open>get_channels\<close> after its first statement: as for \<open>get_epg\<close>, the guide that
  \<^verbatim>\<open>download_epg\<close> returned is the parameter \<open>epg\<close>.
\<close>

definition get_channels :: "guide \<Rightarrow> error + channel list" where
  "get_channels epg = ebind (req ''channels'' (g_channels epg)) channels_of"

text \<open>
  The body of the loop of \<^verbatim>\<open>get_channels_with_epg\<close> after the lookup: \<^verbatim>\<open>if p:\<close> and the
  statements under it. An entry of the index is a dictionary with keys, so it is true.
\<close>

definition with_program :: "epg_entry option \<Rightarrow> channel \<Rightarrow> channel" where
  "with_program found ch =
     (case found of
        None \<Rightarrow> ch
      | Some p \<Rightarrow>
          (let ch = ch\<lparr> ch_plot := Some (p_plot p),
                        ch_title := ch_title ch @ '' - [COLOR yellow]'' @ p_title p @ ''[/COLOR]'',
                        ch_duration := Some (p_duration p) \<rparr>;
               ch = (if truthy (p_poster p)
                     then ch\<lparr>ch_art := (ch_art ch)\<lparr>art_poster := p_poster p\<rparr>\<rparr>
                     else ch)
           in if truthy (p_content_id p) \<and> truthy (p_provider_variant_id p)
              then ch\<lparr> ch_content_id := p_content_id p,
                       ch_provider_variant_id := p_provider_variant_id p \<rparr>
              else ch))"

text \<open>
  The loop of \<^verbatim>\<open>get_channels_with_epg\<close>: the lookup of every channel at the time \<open>now\<close>
  taken before the guide was read. \<open>clock\<close> is the clock during the loop, which the
  lookup reads only when \<open>now\<close> is zero.
\<close>

fun channels_loop :: "rat \<Rightarrow> epg_index \<Rightarrow> rat \<Rightarrow> channel list \<Rightarrow> error + channel list" where
  "channels_loop clock epg now [] = Inr []"
| "channels_loop clock epg now (ch # channels) =
     ebind (find_program_epg clock epg (ch_service_key ch) (Some now)) (\<lambda>p.
     ebind (channels_loop clock epg now channels) (\<lambda>res. Inr (with_program p ch # res)))"

text \<open>
  \<^verbatim>\<open>get_channels_with_epg\<close>. The guide is read twice, by \<^verbatim>\<open>get_channels\<close> at the clock
  \<open>t1\<close> and by \<^verbatim>\<open>get_epg\<close> at the clock \<open>t2\<close>; \<open>answer1\<close> and \<open>answer2\<close> are what the
  guide endpoint answers when it is asked at these times.
\<close>

definition get_channels_with_epg ::
    "ts2str \<Rightarrow> guide \<Rightarrow> guide \<Rightarrow> rat \<Rightarrow> rat \<Rightarrow> rat \<Rightarrow> rat \<Rightarrow> store \<Rightarrow> error + channel list \<times> store" where
  "get_channels_with_epg ts2str answer1 answer2 now t1 t2 clock s =
     ebind (download_epg answer1 t1 s) (\<lambda>(guide1, s).
     ebind (get_channels guide1) (\<lambda>channels.
     ebind (download_epg answer2 t2 s) (\<lambda>(guide2, s).
     ebind (get_epg ts2str guide2) (\<lambda>epg.
     ebind (channels_loop clock epg now channels) (\<lambda>channels. Inr (channels, s))))))"

section \<open>Example data\<close>

definition ex_ts2str :: ts2str where
  "ex_ts2str t fmt = ''''"

definition ex_item :: "int \<Rightarrow> int \<Rightarrow> schedule_item" where
  "ex_item start dur =
     \<lparr> si_startTimeUTC = Some start, si_durationSeconds = Some dur,
       si_data = Some \<lparr> sd_title = Some ''News'', sd_description = None, sd_images = None,
                        sd_contentId = None, sd_providerVariantId = None \<rparr> \<rparr>"

definition ex_entry :: "int \<Rightarrow> int \<Rightarrow> epg_entry" where
  "ex_entry start dur =
     \<lparr> p_start = start, p_end = start + dur, p_start_str = '''', p_end_str = '''',
       p_date_str = '''', p_title = ''News'', p_plot = None, p_duration = dur,
       p_poster = None, p_content_id = None, p_provider_variant_id = None \<rparr>"

definition ex_guide :: "int \<Rightarrow> int \<Rightarrow> guide" where
  "ex_guide start dur =
    \<lparr> g_channels = Some [\<lparr> gc_serviceKey = Some ''4001'',
         gc_scheduleItems = Some [ex_item start dur], gc_rank = Some 1,
         gc_name = Some ''One'', gc_id = Some ''c1'', gc_images = None,
         gc_type = Some ''LINEAR'' \<rparr>] \<rparr>"

definition ex_other_guide :: "int \<Rightarrow> int \<Rightarrow> guide" where
  "ex_other_guide start dur =
    \<lparr> g_channels = Some [\<lparr> gc_serviceKey = Some ''4002'',
         gc_scheduleItems = Some [ex_item start dur], gc_rank = Some 2,
         gc_name = Some ''Two'', gc_id = Some ''c2'', gc_images = None,
         gc_type = Some ''LINEAR'' \<rparr>] \<rparr>"

definition ex_image :: "string \<Rightarrow> string \<Rightarrow> image" where
  "ex_image ty url = \<lparr> img_type = Some ty, img_url = Some url \<rparr>"

definition ex_attributes :: "(string \<rightharpoonup> media_format) option \<Rightarrow> string list option \<Rightarrow> attributes" where
  "ex_attributes formats segments =
     \<lparr> at_slug = Some ''/movies/heat'', at_title = Some ''Heat'', at_images = Some [],
       at_genres = Some [''Crime''], at_synopsisLong = Some ''A heist.'',
       at_seriesName = None, at_seasonNumber = None, at_episodeNumber = None,
       at_durationSeconds = Some 10200, at_ottCertificate = None, at_formats = formats,
       at_providerVariantId = Some ''pv1'', at_programmeUuid = None, at_seriesUuid = None,
       at_providerSeriesId = None, at_contentSegments = segments \<rparr>"

definition ex_programme :: "(string \<rightharpoonup> media_format) option \<Rightarrow> string list option \<Rightarrow> graph_item" where
  "ex_programme formats segments =
     \<lparr> gi_id = Some ''id1'', gi_type = Some ''ASSET/PROGRAMME'', gi_year = Some 1995,
       gi_attributes = Some (ex_attributes formats segments) \<rparr>"

definition ex_collection :: "string list option \<Rightarrow> catalog_entry" where
  "ex_collection segments =
     \<lparr> ce_id = Some ''rail1'', ce_slug = Some ''/rail'', ce_title = Some ''Rail'',
       ce_displayStartTime = None, ce_contentSegments = segments,
       ce_type = Some ''CATALOGUE/COLLECTION'', ce_linkInfo = None, ce_linkId = None,
       ce_year = None, ce_duration = None, ce_durationSeconds = None,
       ce_ottCertificate = None, ce_synopsisLong = None, ce_images = None,
       ce_genreList = None, ce_seriesName = None, ce_seasonNumber = None, ce_number = None,
       ce_streamPosition = None \<rparr>"

definition ex_format :: "string \<Rightarrow> int option \<Rightarrow> media_format" where
  "ex_format cid soc = \<lparr> fm_contentId = Some cid, fm_startOfCredits = soc \<rparr>"

text \<open>
  A service with two profiles, a localisation for Poland with the wildcard as active
  territory, and a login that succeeds with the password \<^verbatim>\<open>secret\<close>; \<open>ex_json_loads\<close>
  reads the body \<^verbatim>\<open>welcome\<close> as an object with the event type \<^verbatim>\<open>success\<close>, the body
  \<^verbatim>\<open>refused\<close> as one with the event type \<^verbatim>\<open>failure\<close>, and no other body as JSON.
\<close>

definition ex_persona :: "string \<Rightarrow> string \<Rightarrow> persona" where
  "ex_persona ident name =
     \<lparr> pe_id = Some ident, pe_displayName = Some name, pe_type = Some ''Adult'',
       pe_avatar = Some \<lparr> av_links = Some \<lparr> als_AvatarWithBackgroundTransparency =
         Some \<lparr> al_href = Some ''a.png'' \<rparr> \<rparr> \<rparr> \<rparr>"


definition ex_localisation :: localisation where
  "ex_localisation =
     \<lparr> lo_headers = Some [''x-skyott-activeterritory'' \<mapsto> ''XX'',
                          ''x-skyott-language'' \<mapsto> ''pl'',
                          ''x-skyott-territory'' \<mapsto> ''PL''] \<rparr>"

definition ex_tokens :: tokens where
  "ex_tokens = \<lparr> tk_userToken = Some ''token1'', tk_description = None \<rparr>"

definition ex_refusal :: tokens where
  "ex_refusal = \<lparr> tk_userToken = None, tk_description = Some ''Account blocked'' \<rparr>"

definition ex_upstream :: "tokens \<Rightarrow> upstream" where
  "ex_upstream tk =
     \<lparr> up_user_agent = ''agent'', up_create_device_id = ''device2'',
       up_localisation = ex_localisation,
       up_profiles = \<lparr> prs_personas = Some [ex_persona ''p1'' ''Ann'', ex_persona ''p2'' ''Bob''] \<rparr>,
       up_profile_info = (\<lambda>ident. \<lparr> pi_persona = None \<rparr>),
       up_tokens = (\<lambda>request. tk),
       up_me = \<lparr> me_segmentation = Some \<lparr> sgm_content = Some [\<lparr> seg_name = Some ''S1'' \<rparr>] \<rparr> \<rparr>,
       up_login = (\<lambda>username password.
         \<lparr> lr_cookies = [(''session'', ''1''), (''hterr'', ''PL'')],
           lr_content = (if password = ''secret'' then ''welcome'' else ''refused'') \<rparr>) \<rparr>"

definition ex_json_loads :: "string \<Rightarrow> login_body" where
  "ex_json_loads body =
     (if body = ''welcome'' then EventType (Some ''success'')
      else if body = ''refused'' then EventType (Some ''failure'')
      else NotJson)"

definition ex_files :: store where
  "ex_files =
     [''skyshowtime/device_id.conf'' \<mapsto> (Text ''device1'', 0),
      ''skyshowtime/cookie.conf'' \<mapsto> (Text ''session=1; hterr=DE'', 0),
      ''searchs.json'' \<mapsto> (Searches [''heat''], 0)]"

section \<open>Properties of the catalogue normalisation\<close>

lemma ebind_Inr_iff: "ebind m f = Inr y \<longleftrightarrow> (\<exists>x. m = Inr x \<and> f x = Inr y)"
  by (cases m) (simp_all add: ebind_def)

lemma req_Inr_iff: "req k v = Inr x \<longleftrightarrow> v = Some x"
  by (cases v) (simp_all add: req_def)

lemma is_subscribed_iff: "is_subscribed my segs \<longleftrightarrow> set my \<inter> set segs \<noteq> {}"
  by (induction my) auto

lemma it_top_set_top: "it_top (set_top k v t) = (it_top t)(k \<mapsto> v)"
  by (simp add: set_top_def)

lemma it_top_set_info: "it_top (set_info k v t) = it_top t"
  by (simp add: set_info_def)

lemma it_top_set_bookmark: "it_top (set_bookmark k v t) = it_top t"
  by (simp add: set_bookmark_def)

lemma it_bm_set_top: "it_bookmark_metadata (set_top k v t) = it_bookmark_metadata t"
  by (simp add: set_top_def)

lemma it_bm_set_info: "it_bookmark_metadata (set_info k v t) = it_bookmark_metadata t"
  by (simp add: set_info_def)

lemma it_bm_set_bookmark:
  "it_bookmark_metadata (set_bookmark k v t) =
     Some ((case it_bookmark_metadata t of None \<Rightarrow> Map.empty | Some m \<Rightarrow> m)(k \<mapsto> v))"
  by (simp add: set_bookmark_def)

lemmas item_simps = it_top_set_top it_top_set_info it_top_set_bookmark
  it_bm_set_top it_bm_set_info it_bm_set_bookmark

lemma set_segments_top:
  "it_top (set_segments my cs t) ''subscribed'' =
     (case cs of None \<Rightarrow> it_top t ''subscribed''
               | Some segs \<Rightarrow> Some (VBool (set my \<inter> set segs \<noteq> {})))"
  by (simp add: set_segments_def item_simps is_subscribed_iff split: option.splits)

lemma set_segments_other:
  "k \<noteq> ''subscribed'' \<Longrightarrow> k \<noteq> ''segments'' \<Longrightarrow> it_top (set_segments my cs t) k = it_top t k"
  by (simp add: set_segments_def item_simps split: option.splits)

lemma set_segments_bm:
  "it_bookmark_metadata (set_segments my cs t) = it_bookmark_metadata t"
  by (simp add: set_segments_def item_simps split: option.splits)

lemma item_head_top:
  assumes "item_head e att = Inr t"
  shows "it_top t ''subscribed'' = None" and "it_top t ''content_id'' = None"
    and "it_bookmark_metadata t = Some Map.empty"
  using assms
  by (auto simp add: item_head_def ebind_Inr_iff item_simps item0_def)

lemma item_kind_top:
  assumes "item_kind e att ty t = Inr t'"
  shows "it_top t' ''subscribed'' = it_top t ''subscribed''"
    and "it_top t' ''content_id'' = it_top t ''content_id''"
    and "it_bookmark_metadata t' = it_bookmark_metadata t"
  using assms
  by (auto simp add: item_kind_def ebind_Inr_iff item_simps split: if_splits)

lemma item_formats_effect:
  assumes "item_formats att t = Inr t'" and "it_top t ''content_id'' = None"
    and "it_bookmark_metadata t = Some Map.empty"
  shows "it_top t' ''subscribed'' = it_top t ''subscribed'' \<and>
    (case at_formats att of
        None \<Rightarrow> it_top t' ''content_id'' = None \<and> it_bookmark_metadata t' = Some Map.empty
      | Some formats \<Rightarrow>
          (case formats ''HD'' of
             Some f_hd \<Rightarrow> (\<exists>cid. fm_contentId f_hd = Some cid \<and> it_top t' ''content_id'' = Some (VStr cid))
                \<and> (\<exists>bm. it_bookmark_metadata t' = Some bm \<and>
                      bm ''startOfCredits'' = map_option VInt (fm_startOfCredits f_hd))
           | None \<Rightarrow>
               it_bookmark_metadata t' = Some Map.empty \<and>
               (case formats ''SD'' of
                  Some f_sd \<Rightarrow> (\<exists>cid. fm_contentId f_sd = Some cid \<and> it_top t' ''content_id'' = Some (VStr cid))
                | None \<Rightarrow> it_top t' ''content_id'' = None)))"
proof (cases "at_formats att")
  case None
  with assms show ?thesis by (simp add: item_formats_def)
next
  case (Some formats)
  show ?thesis
  proof (cases "formats ''HD''")
    case None
    note noHD = this
    show ?thesis
    proof (cases "formats ''SD''")
      case None
      with noHD Some assms show ?thesis by (simp add: item_formats_def)
    next
      case (Some f_sd)
      with noHD \<open>at_formats att = Some formats\<close> assms(1)
      obtain cid where "fm_contentId f_sd = Some cid"
        and "t' = set_top ''content_id'' (VStr cid) t"
        by (auto simp add: item_formats_def ebind_Inr_iff req_Inr_iff)
      with noHD Some \<open>at_formats att = Some formats\<close> assms(3) show ?thesis
        by (simp add: item_simps)
    qed
  next
    case (Some f_hd)
    with \<open>at_formats att = Some formats\<close> assms(1)
    obtain cid where cid: "fm_contentId f_hd = Some cid"
      and t': "t' = (case fm_startOfCredits f_hd of
                 None \<Rightarrow> set_top ''content_id'' (VStr cid) t
               | Some soc \<Rightarrow> set_bookmark ''startOfCredits'' (VInt soc)
                               (set_top ''content_id'' (VStr cid) t))"
      by (auto simp add: item_formats_def ebind_Inr_iff req_Inr_iff Let_def)
    show ?thesis
    proof (cases "fm_startOfCredits f_hd")
      case None
      with cid t' Some \<open>at_formats att = Some formats\<close> assms(3) show ?thesis
        by (simp add: item_simps)
    next
      case (Some soc)
      with cid t' \<open>formats ''HD'' = Some f_hd\<close> \<open>at_formats att = Some formats\<close> assms(3)
      show ?thesis
        by (simp add: item_simps)
    qed
  qed
qed

lemma item_playable_effect:
  assumes "item_playable att ty t = Inr t'" and "it_top t ''content_id'' = None"
    and "it_bookmark_metadata t = Some Map.empty"
  shows "it_top t' ''subscribed'' = it_top t ''subscribed'' \<and>
    (if ty \<in> set playable_types then
      (case at_formats att of
        None \<Rightarrow> it_top t' ''content_id'' = None \<and> it_bookmark_metadata t' = Some Map.empty
      | Some formats \<Rightarrow>
          (case formats ''HD'' of
             Some f_hd \<Rightarrow> (\<exists>cid. fm_contentId f_hd = Some cid \<and> it_top t' ''content_id'' = Some (VStr cid))
                \<and> (\<exists>bm. it_bookmark_metadata t' = Some bm \<and>
                      bm ''startOfCredits'' = map_option VInt (fm_startOfCredits f_hd))
           | None \<Rightarrow>
               it_bookmark_metadata t' = Some Map.empty \<and>
               (case formats ''SD'' of
                  Some f_sd \<Rightarrow> (\<exists>cid. fm_contentId f_sd = Some cid \<and> it_top t' ''content_id'' = Some (VStr cid))
                | None \<Rightarrow> it_top t' ''content_id'' = None)))
     else t' = t)"
proof (cases "ty \<in> set playable_types")
  case False
  with assms(1) show ?thesis by (simp add: item_playable_def)
next
  case True
  with assms(1) obtain plot dur t2 where
    f: "item_formats att (set_info ''mpaa'' (get_str (at_ottCertificate att))
            (set_info ''duration'' (VInt dur) (set_info ''plot'' (VStr plot) t))) = Inr t2"
    and t': "t' = set_top ''provider_variant_id'' (get_str (at_providerVariantId att)) t2"
    by (auto simp add: item_playable_def ebind_Inr_iff Let_def)
  have "it_top t2 ''content_id'' = it_top t' ''content_id''"
    "it_top t2 ''subscribed'' = it_top t' ''subscribed''"
    "it_bookmark_metadata t2 = it_bookmark_metadata t'"
    by (simp_all add: t' item_simps)
  with item_formats_effect [OF f] assms(2,3) True show ?thesis
    by (auto simp add: item_simps split: option.splits)
qed

lemma item_tail_effect:
  "it_top (item_tail my att t) ''subscribed'' =
     (case at_contentSegments att of None \<Rightarrow> it_top t ''subscribed''
               | Some segs \<Rightarrow> Some (VBool (set my \<inter> set segs \<noteq> {})))"
  "it_top (item_tail my att t) ''content_id'' = it_top t ''content_id''"
  "it_bookmark_metadata t = Some bm \<Longrightarrow>
     \<exists>bm'. it_bookmark_metadata (item_tail my att t) = Some bm' \<and>
        bm' ''startOfCredits'' = bm ''startOfCredits''"
  by (auto simp add: item_tail_def Let_def set_segments_top set_segments_other set_segments_bm item_simps
        split: option.splits)

lemma parse_item_stages:
  assumes "parse_item my e = Inr t"
  obtains att ty t1 t2 t3 where "gi_attributes e = Some att" and "gi_type e = Some ty"
    and "item_head e att = Inr t1" and "item_kind e att ty t1 = Inr t2"
    and "item_playable att ty t2 = Inr t3" and "t = item_tail my att t3"
  using assms by (auto simp add: parse_item_def ebind_Inr_iff req_Inr_iff)

text \<open>
  Claim C8. For an item of the graph shape whose type is one of the four playable types
  and that \<open>parse_item\<close> parses: when its \<^verbatim>\<open>formats\<close> hold an \<^verbatim>\<open>HD\<close> entry, the item's
  \<^verbatim>\<open>content_id\<close> is that entry's \<^verbatim>\<open>contentId\<close>, and the bookmark metadata carry the entry's
  \<^verbatim>\<open>startOfCredits\<close> exactly when the entry has one; otherwise, when they hold an \<^verbatim>\<open>SD\<close>
  entry, the \<^verbatim>\<open>content_id\<close> is the \<^verbatim>\<open>contentId\<close> of that entry; when they hold neither, or
  the item has no \<^verbatim>\<open>formats\<close>, the item has no key \<^verbatim>\<open>content_id\<close>.
\<close>

theorem parse_item_format_preference:
  "parse_item my e = Inr t \<and> gi_type e = Some ty \<and> ty \<in> set playable_types
     \<and> gi_attributes e = Some att \<longrightarrow>
   (case at_formats att of
      None \<Rightarrow> it_top t ''content_id'' = None
    | Some formats \<Rightarrow>
        (case formats ''HD'' of
           Some f_hd \<Rightarrow>
             (\<exists>cid. fm_contentId f_hd = Some cid \<and> it_top t ''content_id'' = Some (VStr cid)) \<and>
             (\<exists>bm. it_bookmark_metadata t = Some bm \<and>
                   bm ''startOfCredits'' = map_option VInt (fm_startOfCredits f_hd))
         | None \<Rightarrow>
             (case formats ''SD'' of
                Some f_sd \<Rightarrow>
                  (\<exists>cid. fm_contentId f_sd = Some cid \<and> it_top t ''content_id'' = Some (VStr cid))
              | None \<Rightarrow> it_top t ''content_id'' = None)))"
proof (intro impI, elim conjE)
  assume run: "parse_item my e = Inr t" and ty: "gi_type e = Some ty"
    and playable: "ty \<in> set playable_types" and att: "gi_attributes e = Some att"
  from run att ty obtain t1 t2 t3 where
    head: "item_head e att = Inr t1" and kind: "item_kind e att ty t1 = Inr t2"
    and play: "item_playable att ty t2 = Inr t3" and t: "t = item_tail my att t3"
    by (auto elim!: parse_item_stages)
  from item_head_top [OF head] item_kind_top [OF kind]
  have t2: "it_top t2 ''content_id'' = None" "it_bookmark_metadata t2 = Some Map.empty"
    by simp_all
  from item_playable_effect [OF play t2] playable
  have eff: "case at_formats att of
        None \<Rightarrow> it_top t3 ''content_id'' = None \<and> it_bookmark_metadata t3 = Some Map.empty
      | Some formats \<Rightarrow>
          (case formats ''HD'' of
             Some f_hd \<Rightarrow> (\<exists>cid. fm_contentId f_hd = Some cid \<and> it_top t3 ''content_id'' = Some (VStr cid))
                \<and> (\<exists>bm. it_bookmark_metadata t3 = Some bm \<and>
                      bm ''startOfCredits'' = map_option VInt (fm_startOfCredits f_hd))
           | None \<Rightarrow>
               it_bookmark_metadata t3 = Some Map.empty \<and>
               (case formats ''SD'' of
                  Some f_sd \<Rightarrow> (\<exists>cid. fm_contentId f_sd = Some cid \<and> it_top t3 ''content_id'' = Some (VStr cid))
                | None \<Rightarrow> it_top t3 ''content_id'' = None))"
    by simp
  have cid: "it_top t ''content_id'' = it_top t3 ''content_id''"
    by (simp add: t item_tail_effect)
  have bm: "\<And>bm. it_bookmark_metadata t3 = Some bm \<Longrightarrow>
     \<exists>bm'. it_bookmark_metadata t = Some bm' \<and> bm' ''startOfCredits'' = bm ''startOfCredits''"
    by (simp add: t item_tail_effect)
  from eff cid bm show "case at_formats att of
      None \<Rightarrow> it_top t ''content_id'' = None
    | Some formats \<Rightarrow>
        (case formats ''HD'' of
           Some f_hd \<Rightarrow>
             (\<exists>cid. fm_contentId f_hd = Some cid \<and> it_top t ''content_id'' = Some (VStr cid)) \<and>
             (\<exists>bm. it_bookmark_metadata t = Some bm \<and>
                   bm ''startOfCredits'' = map_option VInt (fm_startOfCredits f_hd))
         | None \<Rightarrow>
             (case formats ''SD'' of
                Some f_sd \<Rightarrow>
                  (\<exists>cid. fm_contentId f_sd = Some cid \<and> it_top t ''content_id'' = Some (VStr cid))
              | None \<Rightarrow> it_top t ''content_id'' = None))"
    by (fastforce split: option.splits)
qed

lemma parse_item_subscribed:
  assumes "parse_item my e = Inr t"
  shows "\<exists>att. gi_attributes e = Some att \<and>
     (case at_contentSegments att of
        None \<Rightarrow> it_top t ''subscribed'' = None
      | Some segs \<Rightarrow> it_top t ''subscribed'' = Some (VBool (set my \<inter> set segs \<noteq> {})))"
proof -
  from assms obtain att ty t1 t2 t3 where att: "gi_attributes e = Some att"
    and head: "item_head e att = Inr t1" and kind: "item_kind e att ty t1 = Inr t2"
    and play: "item_playable att ty t2 = Inr t3" and t: "t = item_tail my att t3"
    by (auto elim!: parse_item_stages)
  from item_head_top [OF head] item_kind_top [OF kind]
  have t2: "it_top t2 ''content_id'' = None" "it_bookmark_metadata t2 = Some Map.empty"
    "it_top t2 ''subscribed'' = None"
    by simp_all
  from item_playable_effect [OF play t2(1,2)] t2(3)
  have "it_top t3 ''subscribed'' = None" by simp
  then have "case at_contentSegments att of
        None \<Rightarrow> it_top t ''subscribed'' = None
      | Some segs \<Rightarrow> it_top t ''subscribed'' = Some (VBool (set my \<inter> set segs \<noteq> {}))"
    by (simp add: t item_tail_effect split: option.splits)
  with att show ?thesis by simp
qed

lemma catalog_head_subscribed:
  assumes "catalog_head ts2str my e = Inr t"
  shows "case ce_contentSegments e of
        None \<Rightarrow> it_top t ''subscribed'' = None
      | Some segs \<Rightarrow> it_top t ''subscribed'' = Some (VBool (set my \<inter> set segs \<noteq> {}))"
  using assms
  by (auto simp add: catalog_head_def ebind_Inr_iff Let_def set_segments_top item_simps item0_def
        split: option.splits)

lemma catalog_art_genre_top:
  "catalog_art_genre e t = Inr t' \<Longrightarrow> it_top t' = it_top t"
  by (auto simp add: catalog_art_genre_def ebind_Inr_iff item_simps)

lemma catalog_asset_subscribed:
  assumes "catalog_asset e ty t = Inr t'"
  shows "it_top t' ''subscribed'' = it_top t ''subscribed''"
  using assms
  by (auto simp add: catalog_asset_def ebind_Inr_iff Let_def item_simps
        dest!: catalog_art_genre_top split: option.splits if_splits)

lemma parse_catalog_entry_subscribed:
  assumes "parse_catalog_entry ts2str my e = Inr (Some t)"
  shows "case ce_contentSegments e of
        None \<Rightarrow> it_top t ''subscribed'' = None
      | Some segs \<Rightarrow> it_top t ''subscribed'' = Some (VBool (set my \<inter> set segs \<noteq> {}))"
proof -
  from assms obtain t0 ty where head: "catalog_head ts2str my e = Inr t0"
    and body: "(if ty = ''CATALOGUE/COLLECTION'' then
         Inr (Some (set_top ''type'' (VStr ''category'') t0))
       else if ty = ''CATALOGUE/LINK'' then
         (let t = set_top ''type'' (VStr ''category'') t0 in
          case ce_linkInfo e of
            Some li \<Rightarrow>
              ebind (req ''slug'' (li_slug li)) (\<lambda>slug.
              ebind (req ''nodeId'' (li_nodeId li)) (\<lambda>node.
                Inr (Some (set_top ''id'' (VStr node) (set_top ''slug'' (VStr slug) t)))))
          | None \<Rightarrow> ebind (req ''linkId'' (ce_linkId e)) (\<lambda>_. Inr None))
       else if ty \<in> set [''ASSET/PROGRAMME'', ''ASSET/SLE'', ''ASSET/SHORTFORM/CLIP'', ''ASSET/EPISODE''] then
         ebind (catalog_asset e ty t0) (\<lambda>t. Inr (Some t))
       else if ty = ''CATALOGUE/SERIES'' then
         (let t = set_top ''type'' (VStr ''series'') t0;
              t = set_info ''mediatype'' (VStr ''tvshow'') t;
              t = set_info ''mpaa'' (get_str (ce_ottCertificate e)) t;
              t = set_info ''plot'' (get_str (ce_synopsisLong e)) t
          in ebind (catalog_art_genre e t) (\<lambda>t. Inr (Some t)))
       else Inr None) = Inr (Some t)"
    unfolding parse_catalog_entry_def ebind_Inr_iff by blast
  have keep: "it_top t ''subscribed'' = it_top t0 ''subscribed''"
  proof (cases "ty = ''CATALOGUE/COLLECTION''")
    case True
    with body show ?thesis by (auto simp add: item_simps)
  next
    case n1: False
    show ?thesis
    proof (cases "ty = ''CATALOGUE/LINK''")
      case True
      with n1 body show ?thesis
        by (auto simp add: Let_def ebind_Inr_iff item_simps split: option.splits)
    next
      case n2: False
      show ?thesis
      proof (cases "ty \<in> set [''ASSET/PROGRAMME'', ''ASSET/SLE'', ''ASSET/SHORTFORM/CLIP'', ''ASSET/EPISODE'']")
        case True
        with n1 n2 body have "catalog_asset e ty t0 = Inr t"
          by (simp add: ebind_Inr_iff)
        then show ?thesis by (rule catalog_asset_subscribed)
      next
        case n3: False
        show ?thesis
        proof (cases "ty = ''CATALOGUE/SERIES''")
          case True
          from body have "catalog_art_genre e (set_info ''plot'' (get_str (ce_synopsisLong e))
              (set_info ''mpaa'' (get_str (ce_ottCertificate e))
                (set_info ''mediatype'' (VStr ''tvshow'')
                  (set_top ''type'' (VStr ''series'') t0)))) = Inr t"
            unfolding True by (simp add: Let_def ebind_Inr_iff)
          from catalog_art_genre_top [OF this] show ?thesis
            by (simp add: item_simps)
        next
          case False
          with n1 n2 n3 body show ?thesis by simp
        qed
      qed
    qed
  qed
  from catalog_head_subscribed [OF head] keep show ?thesis
    by (simp split: option.splits)
qed

lemma parse_catalog_source:
  assumes "parse_catalog ts2str my data = Inr res" and "t \<in> set res"
  shows "\<exists>e\<in>set data. parse_catalog_entry ts2str my e = Inr (Some t)"
  using assms
proof (induction data arbitrary: res)
  case Nil
  then show ?case by simp
next
  case (Cons e data)
  from Cons.prems(1) obtain r res' where r: "parse_catalog_entry ts2str my e = Inr r"
    and res': "parse_catalog ts2str my data = Inr res'"
    and res: "res = (case r of None \<Rightarrow> res' | Some t \<Rightarrow> t # res')"
    by (auto simp add: ebind_Inr_iff)
  show ?case
  proof (cases "t \<in> set res'")
    case True
    with Cons.IH [OF res'] show ?thesis by auto
  next
    case False
    with Cons.prems(2) res have "r = Some t" by (cases r) auto
    with r show ?thesis by simp
  qed
qed

text \<open>
  Claim C4. Every item of \<open>parse_item\<close>, and every item in the result of
  \<open>parse_catalog\<close> (which comes from an entry of the payload), carries the key
  \<^verbatim>\<open>subscribed\<close> exactly when its payload carries \<^verbatim>\<open>contentSegments\<close>; the value is then
  true exactly when the segments of the payload and the segments of the session have a
  name in common.
\<close>

theorem subscribed_iff_segments_overlap:
  "(parse_item my e = Inr t \<longrightarrow>
      (\<exists>att. gi_attributes e = Some att \<and>
        (case at_contentSegments att of
           None \<Rightarrow> it_top t ''subscribed'' = None
         | Some segs \<Rightarrow> it_top t ''subscribed'' = Some (VBool (set my \<inter> set segs \<noteq> {})))))
   \<and> (parse_catalog ts2str my data = Inr res \<and> t' \<in> set res \<longrightarrow>
      (\<exists>e'\<in>set data. parse_catalog_entry ts2str my e' = Inr (Some t') \<and>
        (case ce_contentSegments e' of
           None \<Rightarrow> it_top t' ''subscribed'' = None
         | Some segs \<Rightarrow> it_top t' ''subscribed'' = Some (VBool (set my \<inter> set segs \<noteq> {})))))"
proof (intro conjI impI)
  assume "parse_item my e = Inr t"
  then show "\<exists>att. gi_attributes e = Some att \<and>
        (case at_contentSegments att of
           None \<Rightarrow> it_top t ''subscribed'' = None
         | Some segs \<Rightarrow> it_top t ''subscribed'' = Some (VBool (set my \<inter> set segs \<noteq> {})))"
    by (rule parse_item_subscribed)
next
  assume "parse_catalog ts2str my data = Inr res \<and> t' \<in> set res"
  then obtain e' where "e' \<in> set data" and e': "parse_catalog_entry ts2str my e' = Inr (Some t')"
    using parse_catalog_source by blast
  with parse_catalog_entry_subscribed [OF e']
  show "\<exists>e'\<in>set data. parse_catalog_entry ts2str my e' = Inr (Some t') \<and>
        (case ce_contentSegments e' of
           None \<Rightarrow> it_top t' ''subscribed'' = None
         | Some segs \<Rightarrow> it_top t' ''subscribed'' = Some (VBool (set my \<inter> set segs \<noteq> {})))"
    by blast
qed

lemmas parse_item_eval = parse_item_def item_head_def item_kind_def item_playable_def
  item_formats_def item_tail_def set_segments_def set_top_def set_info_def set_bookmark_def
  get_art_def get_str_def get_int_def item0_def playable_types_def ebind_def req_def
  ex_programme_def ex_attributes_def ex_format_def Let_def

lemma ex_parse_item_runs:
  "\<exists>t. parse_item my (ex_programme None segments) = Inr t"
  by (simp add: parse_item_eval)

lemma ex_parse_item_runs_hd:
  "\<exists>t. parse_item my (ex_programme (Some [''HD'' \<mapsto> ex_format ''hd1'' (Some 5400), ''SD'' \<mapsto> ex_format ''sd1'' None]) segments) = Inr t"
  by (simp add: parse_item_eval)

lemma ex_parse_item_runs_sd:
  "\<exists>t. parse_item my (ex_programme (Some [''SD'' \<mapsto> ex_format ''sd1'' (Some 5400)]) segments) = Inr t"
  by (simp add: parse_item_eval)

lemma ex_parse_item_runs_uhd:
  "\<exists>t. parse_item my (ex_programme (Some [''UHD'' \<mapsto> ex_format ''uhd1'' None]) segments) = Inr t"
  by (simp add: parse_item_eval)

text \<open>
  Four programmes: with both formats, with \<^verbatim>\<open>SD\<close> only, with another format only, and with
  no \<^verbatim>\<open>formats\<close> at all.
\<close>

theorem parse_item_format_preference_witness:
  "(\<exists>t bm. parse_item [] (ex_programme (Some [''HD'' \<mapsto> ex_format ''hd1'' (Some 5400), ''SD'' \<mapsto> ex_format ''sd1'' None]) None) = Inr t
       \<and> it_top t ''content_id'' = Some (VStr ''hd1'')
       \<and> it_bookmark_metadata t = Some bm \<and> bm ''startOfCredits'' = Some (VInt 5400))
   \<and> (\<exists>t. parse_item [] (ex_programme (Some [''SD'' \<mapsto> ex_format ''sd1'' (Some 5400)]) None) = Inr t
       \<and> it_top t ''content_id'' = Some (VStr ''sd1''))
   \<and> (\<exists>t. parse_item [] (ex_programme (Some [''UHD'' \<mapsto> ex_format ''uhd1'' None]) None) = Inr t
       \<and> it_top t ''content_id'' = None)
   \<and> (\<exists>t. parse_item [] (ex_programme None None) = Inr t \<and> it_top t ''content_id'' = None)"
proof -
  let ?f1 = "Some [''HD'' \<mapsto> ex_format ''hd1'' (Some 5400), ''SD'' \<mapsto> ex_format ''sd1'' None]"
  let ?f2 = "Some [''SD'' \<mapsto> ex_format ''sd1'' (Some 5400)]"
  let ?f3 = "Some [''UHD'' \<mapsto> ex_format ''uhd1'' None]"
  have ty: "gi_type (ex_programme f None) = Some ''ASSET/PROGRAMME''"
    "''ASSET/PROGRAMME'' \<in> set playable_types"
    "gi_attributes (ex_programme f None) = Some (ex_attributes f None)" for f
    by (simp_all add: ex_programme_def playable_types_def)
  obtain t1 where t1: "parse_item [] (ex_programme ?f1 None) = Inr t1"
    using ex_parse_item_runs_hd by blast
  obtain t2 where t2: "parse_item [] (ex_programme ?f2 None) = Inr t2"
    using ex_parse_item_runs_sd by blast
  obtain t3 where t3: "parse_item [] (ex_programme ?f3 None) = Inr t3"
    using ex_parse_item_runs_uhd by blast
  obtain t4 where t4: "parse_item [] (ex_programme None None) = Inr t4"
    using ex_parse_item_runs by blast
  from parse_item_format_preference [of "[]" "ex_programme ?f1 None" t1 "''ASSET/PROGRAMME''" "ex_attributes ?f1 None"]
    t1 ty
  have c1: "\<exists>bm. it_top t1 ''content_id'' = Some (VStr ''hd1'')
       \<and> it_bookmark_metadata t1 = Some bm \<and> bm ''startOfCredits'' = Some (VInt 5400)"
    by (simp add: ex_attributes_def ex_format_def)
  from parse_item_format_preference [of "[]" "ex_programme ?f2 None" t2 "''ASSET/PROGRAMME''" "ex_attributes ?f2 None"]
    t2 ty
  have c2: "it_top t2 ''content_id'' = Some (VStr ''sd1'')"
    by (simp add: ex_attributes_def ex_format_def)
  from parse_item_format_preference [of "[]" "ex_programme ?f3 None" t3 "''ASSET/PROGRAMME''" "ex_attributes ?f3 None"]
    t3 ty
  have c3: "it_top t3 ''content_id'' = None"
    by (simp add: ex_attributes_def ex_format_def)
  from parse_item_format_preference [of "[]" "ex_programme None None" t4 "''ASSET/PROGRAMME''" "ex_attributes None None"]
    t4 ty
  have c4: "it_top t4 ''content_id'' = None"
    by (simp add: ex_attributes_def)
  from t1 t2 t3 t4 c1 c2 c3 c4 show ?thesis by blast
qed

lemma ex_parse_catalog_runs:
  "\<exists>t1 t2. parse_catalog ts2str my [ex_collection s1, ex_collection s2] = Inr [t1, t2]"
  by (simp add: parse_catalog_entry_def catalog_head_def ebind_def req_def ex_collection_def Let_def)

text \<open>
  The segments X and Y against the session's Y and Z, against the session's A, and an
  item without segments; the same for two entries of a rail.
\<close>

theorem subscribed_iff_segments_overlap_witness:
  "(\<exists>t. parse_item [''Y'', ''Z''] (ex_programme None (Some [''X'', ''Y''])) = Inr t
       \<and> it_top t ''subscribed'' = Some (VBool True))
   \<and> (\<exists>t. parse_item [''A''] (ex_programme None (Some [''X'', ''Y''])) = Inr t
       \<and> it_top t ''subscribed'' = Some (VBool False))
   \<and> (\<exists>t. parse_item [''Y'', ''Z''] (ex_programme None None) = Inr t
       \<and> it_top t ''subscribed'' = None)
   \<and> (\<exists>t1 t2. parse_catalog (\<lambda>t fmt. []) [''Y'', ''Z''] [ex_collection (Some [''X'', ''Y'']), ex_collection None] = Inr [t1, t2]
       \<and> it_top t1 ''subscribed'' = Some (VBool True) \<and> it_top t2 ''subscribed'' = None)"
proof -
  let ?s = "Some [''X'', ''Y'']"
  obtain t1 where t1: "parse_item [''Y'', ''Z''] (ex_programme None ?s) = Inr t1"
    using ex_parse_item_runs by blast
  obtain t2 where t2: "parse_item [''A''] (ex_programme None ?s) = Inr t2"
    using ex_parse_item_runs by blast
  obtain t3 where t3: "parse_item [''Y'', ''Z''] (ex_programme None None) = Inr t3"
    using ex_parse_item_runs by blast
  let ?data = "[ex_collection ?s, ex_collection None]"
  let ?ts = "\<lambda>(t::rat) (fmt::string option). ([]::string)"
  obtain u1 u2 where u: "parse_catalog ?ts [''Y'', ''Z''] ?data = Inr [u1, u2]"
    using ex_parse_catalog_runs by blast
  have a: "gi_attributes (ex_programme None s) = Some (ex_attributes None s)"
    "at_contentSegments (ex_attributes None s) = s" for s
    by (simp_all add: ex_programme_def ex_attributes_def)
  from subscribed_iff_segments_overlap [of "[''Y'', ''Z'']" "ex_programme None ?s" t1] t1 a
  have c1: "it_top t1 ''subscribed'' = Some (VBool True)" by simp
  from subscribed_iff_segments_overlap [of "[''A'']" "ex_programme None ?s" t2] t2 a
  have c2: "it_top t2 ''subscribed'' = Some (VBool False)" by simp
  from subscribed_iff_segments_overlap [of "[''Y'', ''Z'']" "ex_programme None None" t3] t3 a
  have c3: "it_top t3 ''subscribed'' = None" by simp
  have e1: "parse_catalog_entry ?ts [''Y'', ''Z''] (ex_collection ?s) = Inr (Some u1)"
    and e2: "parse_catalog_entry ?ts [''Y'', ''Z''] (ex_collection None) = Inr (Some u2)"
    using u
    by (simp_all add: parse_catalog_entry_def catalog_head_def ebind_def req_def ex_collection_def Let_def)
  from parse_catalog_entry_subscribed [OF e1] parse_catalog_entry_subscribed [OF e2]
  have c4: "it_top u1 ''subscribed'' = Some (VBool True)" "it_top u2 ''subscribed'' = None"
    by (simp_all add: ex_collection_def)
  from t1 t2 t3 u c1 c2 c3 c4 show ?thesis by blast
qed

text \<open>
  Claim C3 does not hold of the code: the fallback runs after every image, not after the
  last one. With the 4:3 non-title art listed before the 4:3 title art, the poster is the
  non-title art, and with the two the other way round it is the title art; with the
  non-title art listed before the 16:9 title art, the poster is the 16:9 art and the
  thumb, which no image sets, is the non-title art, not the poster.
\<close>

theorem get_art_depends_on_order:
  "get_art [ex_image ''nonTitleArt34'' ''n?language=en'', ex_image ''titleArt34'' ''t?language=en'']
     = Inr \<lparr> art_icon = None, art_poster = Some ''n/400?language=en'', art_fanart = None,
             art_thumb = Some ''n/400?language=en'', art_clearlogo = None \<rparr>
   \<and> get_art [ex_image ''titleArt34'' ''t?language=en'', ex_image ''nonTitleArt34'' ''n?language=en'']
     = Inr \<lparr> art_icon = None, art_poster = Some ''t/400?language=en'', art_fanart = None,
             art_thumb = Some ''t/400?language=en'', art_clearlogo = None \<rparr>
   \<and> get_art [ex_image ''nonTitleArt34'' ''n?language=en'', ex_image ''titleArt169'' ''p?language=en'']
     = Inr \<lparr> art_icon = None, art_poster = Some ''p/400?language=en'', art_fanart = None,
             art_thumb = Some ''n/400?language=en'', art_clearlogo = None \<rparr>
   \<and> get_art [ex_image ''titleArt169'' ''p?language=en'', ex_image ''nonTitleArt34'' ''n?language=en'']
     = Inr \<lparr> art_icon = None, art_poster = Some ''p/400?language=en'', art_fanart = None,
             art_thumb = Some ''p/400?language=en'', art_clearlogo = None \<rparr>"
  by (simp add: get_art_def get_art_dispatch_def get_art_fallback_def art0_def ex_image_def
        image_url_def replace_def truthy_def ebind_def req_def Let_def)

section \<open>Properties of the programme guide\<close>

lemma find_program_loop_find:
  "find_program_loop ps t = find (\<lambda>p. covers p t) ps"
  by (induction ps) auto

lemma find_program_loop_None:
  "find_program_loop ps t = None \<longleftrightarrow> (\<forall>p\<in>set ps. \<not> covers p t)"
  by (auto simp add: find_program_loop_find find_None_iff)

lemma find_program_loop_Some:
  "find_program_loop ps t = Some p \<longleftrightarrow>
     (\<exists>i<length ps. ps ! i = p \<and> covers p t \<and> (\<forall>j<i. \<not> covers (ps ! j) t))"
  by (auto simp add: find_program_loop_find find_Some_iff)

lemma epg_entry_of_end:
  assumes "epg_entry_of ts2str i = Inr p"
  shows "\<exists>d. si_startTimeUTC i = Some (p_start p) \<and> si_durationSeconds i = Some d \<and>
             p_end p = p_start p + d"
  using assms
  by (auto simp add: epg_entry_of_def ebind_def req_def split: option.splits)

lemma ex_get_epg: "get_epg ex_ts2str (ex_guide s d) = Inr [''4001'' \<mapsto> [ex_entry s d]]"
  by (simp add: get_epg_def ex_guide_def ex_item_def ex_entry_def epg_entry_of_def ebind_def req_def ex_ts2str_def)

lemma find_program_epg_run:
  "epg key = Some ps \<Longrightarrow>
     find_program_epg now epg key ts = Inr (find_program_loop ps (timestamp_or_now now ts))"
  by (simp add: find_program_epg_def ebind_def req_def)

lemma find_program_loop_first:
  "case find_program_loop ps t of
     None \<Rightarrow> \<forall>p\<in>set ps. \<not> (of_int (p_start p) \<le> t \<and> t \<le> of_int (p_end p))
   | Some p \<Rightarrow> \<exists>i<length ps. ps ! i = p \<and> of_int (p_start p) \<le> t \<and> t \<le> of_int (p_end p) \<and>
       (\<forall>j<i. \<not> (of_int (p_start (ps ! j)) \<le> t \<and> t \<le> of_int (p_end (ps ! j))))"
proof (cases "find_program_loop ps t")
  case None
  then have "\<forall>p\<in>set ps. \<not> covers p t"
    by (simp add: find_program_loop_None)
  with None show ?thesis
    by (simp add: covers_def)
next
  case (Some p)
  then have "\<exists>i<length ps. ps ! i = p \<and> covers p t \<and> (\<forall>j<i. \<not> covers (ps ! j) t)"
    by (simp add: find_program_loop_Some)
  with Some show ?thesis
    by (simp add: covers_def)
qed

lemma find_program_epg_zero: "find_program_epg now epg key (Some 0) = find_program_epg now epg key None"
  by (simp add: find_program_epg_def timestamp_or_now_def)

lemma ex_get_other_epg: "get_epg ex_ts2str (ex_other_guide s d) = Inr [''4002'' \<mapsto> [ex_entry s d]]"
  by (simp add: get_epg_def ex_other_guide_def ex_item_def ex_entry_def epg_entry_of_def ebind_def req_def ex_ts2str_def)

text \<open>
  Claim C2, as the code has it. For an index that holds the channel key and a timestamp
  other than zero, \<open>find_program_epg\<close> returns, without raising, the first entry of the
  channel in stored order whose interval from \<open>start\<close> to \<open>end\<close> contains the timestamp,
  both bounds included, and \<open>None\<close> when no entry of the channel contains it. Every
  entry that \<open>get_epg\<close> builds has \<open>end = start + durationSeconds\<close>. A timestamp of
  zero is read as no timestamp: the lookup at zero is the lookup without a timestamp,
  which searches in the same way at the time of the clock.
\<close>

theorem find_program_epg_inclusive:
  "(epg key = Some ps \<and> t \<noteq> 0 \<longrightarrow>
      (\<exists>r. find_program_epg now epg key (Some t) = Inr r \<and>
        (case r of
           None \<Rightarrow> \<forall>p\<in>set ps. \<not> (of_int (p_start p) \<le> t \<and> t \<le> of_int (p_end p))
         | Some p \<Rightarrow> \<exists>i<length ps. ps ! i = p \<and> of_int (p_start p) \<le> t \<and> t \<le> of_int (p_end p) \<and>
             (\<forall>j<i. \<not> (of_int (p_start (ps ! j)) \<le> t \<and> t \<le> of_int (p_end (ps ! j)))))))
   \<and> (epg_entry_of ts2str i = Inr q \<longrightarrow>
      (\<exists>d. si_startTimeUTC i = Some (p_start q) \<and> si_durationSeconds i = Some d \<and>
           p_end q = p_start q + d))
   \<and> find_program_epg now epg key (Some 0) = find_program_epg now epg key None
   \<and> (epg key = Some ps \<longrightarrow>
      (\<exists>r. find_program_epg now epg key None = Inr r \<and>
        (case r of
           None \<Rightarrow> \<forall>p\<in>set ps. \<not> (of_int (p_start p) \<le> now \<and> now \<le> of_int (p_end p))
         | Some p \<Rightarrow> \<exists>i<length ps. ps ! i = p \<and> of_int (p_start p) \<le> now \<and> now \<le> of_int (p_end p) \<and>
             (\<forall>j<i. \<not> (of_int (p_start (ps ! j)) \<le> now \<and> now \<le> of_int (p_end (ps ! j)))))))"
proof -
  have a: "epg key = Some ps \<and> t \<noteq> 0 \<longrightarrow>
      (\<exists>r. find_program_epg now epg key (Some t) = Inr r \<and>
        (case r of
           None \<Rightarrow> \<forall>p\<in>set ps. \<not> (of_int (p_start p) \<le> t \<and> t \<le> of_int (p_end p))
         | Some p \<Rightarrow> \<exists>i<length ps. ps ! i = p \<and> of_int (p_start p) \<le> t \<and> t \<le> of_int (p_end p) \<and>
             (\<forall>j<i. \<not> (of_int (p_start (ps ! j)) \<le> t \<and> t \<le> of_int (p_end (ps ! j))))))"
    using find_program_loop_first [of ps t]
    by (simp add: find_program_epg_run timestamp_or_now_def)
  have b: "epg_entry_of ts2str i = Inr q \<longrightarrow>
      (\<exists>d. si_startTimeUTC i = Some (p_start q) \<and> si_durationSeconds i = Some d \<and>
           p_end q = p_start q + d)"
    using epg_entry_of_end [of ts2str i q] by blast
  have c: "epg key = Some ps \<longrightarrow>
      (\<exists>r. find_program_epg now epg key None = Inr r \<and>
        (case r of
           None \<Rightarrow> \<forall>p\<in>set ps. \<not> (of_int (p_start p) \<le> now \<and> now \<le> of_int (p_end p))
         | Some p \<Rightarrow> \<exists>i<length ps. ps ! i = p \<and> of_int (p_start p) \<le> now \<and> now \<le> of_int (p_end p) \<and>
             (\<forall>j<i. \<not> (of_int (p_start (ps ! j)) \<le> now \<and> now \<le> of_int (p_end (ps ! j))))))"
    using find_program_loop_first [of ps now]
    by (simp add: find_program_epg_run timestamp_or_now_def)
  show ?thesis
    using a b c find_program_epg_zero [of now epg key] by blast
qed

text \<open>
  The entry from 1000 to 1060 of the specification: found at 1000 and at 1060, not found
  at 999 and at 1061; and at the timestamp zero found or not as the clock, 1030 or 5, is
  in it or not.
\<close>

theorem find_program_epg_inclusive_witness:
  "get_epg ex_ts2str (ex_guide 1000 60) = Inr [''4001'' \<mapsto> [ex_entry 1000 60]]
   \<and> p_start (ex_entry 1000 60) = 1000 \<and> p_end (ex_entry 1000 60) = 1060
   \<and> find_program_epg 5 [''4001'' \<mapsto> [ex_entry 1000 60]] ''4001'' (Some 1000) = Inr (Some (ex_entry 1000 60))
   \<and> find_program_epg 5 [''4001'' \<mapsto> [ex_entry 1000 60]] ''4001'' (Some 1060) = Inr (Some (ex_entry 1000 60))
   \<and> find_program_epg 5 [''4001'' \<mapsto> [ex_entry 1000 60]] ''4001'' (Some 999) = Inr None
   \<and> find_program_epg 5 [''4001'' \<mapsto> [ex_entry 1000 60]] ''4001'' (Some 1061) = Inr None
   \<and> find_program_epg 1030 [''4001'' \<mapsto> [ex_entry 1000 60]] ''4001'' (Some 0) = Inr (Some (ex_entry 1000 60))
   \<and> find_program_epg 5 [''4001'' \<mapsto> [ex_entry 1000 60]] ''4001'' (Some 0) = Inr None"
  using find_program_epg_inclusive [of "[''4001'' \<mapsto> [ex_entry 1000 60]]" "''4001''" "[ex_entry 1000 60]" 1000 5 ex_ts2str "ex_item 1000 60" "ex_entry 1000 60"]
    find_program_epg_inclusive [of "[''4001'' \<mapsto> [ex_entry 1000 60]]" "''4001''" "[ex_entry 1000 60]" 1060 5 ex_ts2str "ex_item 1000 60" "ex_entry 1000 60"]
    find_program_epg_inclusive [of "[''4001'' \<mapsto> [ex_entry 1000 60]]" "''4001''" "[ex_entry 1000 60]" 999 5 ex_ts2str "ex_item 1000 60" "ex_entry 1000 60"]
    find_program_epg_inclusive [of "[''4001'' \<mapsto> [ex_entry 1000 60]]" "''4001''" "[ex_entry 1000 60]" 1061 5 ex_ts2str "ex_item 1000 60" "ex_entry 1000 60"]
    find_program_epg_inclusive [of "[''4001'' \<mapsto> [ex_entry 1000 60]]" "''4001''" "[ex_entry 1000 60]" 1061 1030 ex_ts2str "ex_item 1000 60" "ex_entry 1000 60"]
  by (auto simp add: ex_get_epg ex_entry_def split: option.splits)

text \<open>
  Claim C2 as stated, for every timestamp, fails at the timestamp zero: the entry from -10
  to 10 contains it, and the lookup, which searches at the clock's time instead, finds
  nothing.
\<close>

theorem find_program_epg_zero_counterexample:
  "covers (ex_entry (- 10) 20) 0
   \<and> find_program_epg 1700000000 [''4001'' \<mapsto> [ex_entry (- 10) 20]] ''4001'' (Some 0) = Inr None"
  by (simp add: covers_def ex_entry_def find_program_epg_def timestamp_or_now_def ebind_def req_def)

lemma channel_of_service_key:
  "channel_of c = Inr ch \<Longrightarrow> gc_serviceKey c = Some (ch_service_key ch)"
  by (auto simp add: channel_of_def ebind_def req_def split: option.splits sum.splits)

lemma channels_of_keys:
  "channels_of cs = Inr channels \<Longrightarrow> ch \<in> set channels \<Longrightarrow>
     \<exists>c\<in>set cs. gc_serviceKey c = Some (ch_service_key ch)"
proof (induction cs arbitrary: channels)
  case Nil
  then show ?case by simp
next
  case (Cons c cs)
  from Cons.prems(1) obtain t res where
    t: "channel_of c = Inr t" and res: "channels_of cs = Inr res" and eq: "channels = t # res"
    by (auto simp add: ebind_def split: sum.splits)
  show ?case
  proof (cases "ch = t")
    case True
    then show ?thesis using channel_of_service_key [OF t] by simp
  next
    case False
    then have "ch \<in> set res" using Cons.prems(2) eq by simp
    then show ?thesis using Cons.IH [OF res] by auto
  qed
qed

lemma get_epg_loop_keys:
  "get_epg_loop ts2str cs res = Inr index \<Longrightarrow>
     (\<forall>k. res k \<noteq> None \<longrightarrow> index k \<noteq> None) \<and>
     (\<forall>c\<in>set cs. \<forall>k. gc_serviceKey c = Some k \<longrightarrow> index k \<noteq> None)"
proof (induction cs arbitrary: res)
  case Nil
  then show ?case by simp
next
  case (Cons c cs)
  from Cons.prems obtain ident ts where
    k: "gc_serviceKey c = Some ident" and
    rest: "get_epg_loop ts2str cs (res(ident \<mapsto> ts)) = Inr index"
    by (auto simp add: ebind_def req_def split: sum.splits option.splits)
  show ?case using Cons.IH [OF rest] k by auto
qed

lemma same_guide_keys:
  assumes "get_channels guide = Inr channels" and "get_epg ts2str guide = Inr index"
  shows "\<forall>ch\<in>set channels. index (ch_service_key ch) \<noteq> None"
proof
  fix ch assume ch: "ch \<in> set channels"
  obtain cs where cs: "g_channels guide = Some cs" and c: "channels_of cs = Inr channels"
    using assms(1) by (auto simp add: get_channels_def ebind_def req_def split: option.splits)
  have l: "get_epg_loop ts2str cs Map.empty = Inr index"
    using assms(2) cs by (simp add: get_epg_def ebind_def req_def)
  obtain c' where "c' \<in> set cs" "gc_serviceKey c' = Some (ch_service_key ch)"
    using channels_of_keys [OF c ch] by blast
  then show "index (ch_service_key ch) \<noteq> None"
    using get_epg_loop_keys [OF l] by blast
qed

lemma channels_loop_total:
  "\<forall>ch\<in>set channels. index (ch_service_key ch) \<noteq> None \<Longrightarrow>
     \<exists>res. channels_loop clock index t channels = Inr res"
proof (induction channels)
  case Nil
  then show ?case by simp
next
  case (Cons ch channels)
  then obtain ps where "index (ch_service_key ch) = Some ps" by auto
  moreover obtain res where "channels_loop clock index t channels = Inr res"
    using Cons by auto
  ultimately show ?case
    by (simp add: find_program_epg_run ebind_def)
qed

lemma download_epg_miss:
  "\<not> content_true (load s t1 ''cache/epg.json'' (Some 60)) \<Longrightarrow>
     download_epg answer t1 s = Inr (answer, s(''cache/epg.json'' \<mapsto> (Guide answer, t1)))"
  by (simp add: download_epg_def Let_def save_json_def)

lemma download_epg_hit:
  "s ''cache/epg.json'' = Some (Guide g, w) \<Longrightarrow> t - w < 60 \<Longrightarrow>
     download_epg answer t s = Inr (g, s)"
  by (simp add: download_epg_def Let_def load_def content_true_def loads_guide_def ebind_def)

lemma get_channels_with_epg_same_guide:
  assumes "download_epg answer1 t1 s = Inr (g, s1)" and "download_epg answer2 t2 s1 = Inr (g, s2)"
    and "get_channels g = Inr channels" and "get_epg ts2str g = Inr index"
  shows "\<exists>res. get_channels_with_epg ts2str answer1 answer2 t t1 t2 clock s = Inr (res, s2)"
proof -
  obtain res where "channels_loop clock index t channels = Inr res"
    using channels_loop_total [OF same_guide_keys [OF assms(3,4)]] by blast
  then show ?thesis
    using assms by (simp add: get_channels_with_epg_def ebind_def)
qed

text \<open>
  Claim C10, as the code has it. For a timestamp other than zero the lookup yields its
  not-found result \<open>Inr None\<close> exactly when the channel key is in the index and no entry
  of the channel contains the timestamp; without a timestamp it does so exactly when the
  key is in the index and no entry contains the time of the clock, and the lookup at the
  timestamp zero is the lookup without a timestamp. For a channel key that is not in
  the index it raises \<open>KeyError\<close> and does not return not-found. The channels and the
  index built from one guide agree: every channel's service key is in the index, and the
  loop of \<^verbatim>\<open>get_channels_with_epg\<close> over them does not raise. \<^verbatim>\<open>get_channels_with_epg\<close>
  reads the guide twice through the cache; it does not raise in its lookups when the
  first read fetches the guide and the second comes less than 60 seconds later, or when
  both reads find the cached guide younger than 60 seconds.
\<close>

theorem find_program_epg_not_found_iff:
  "(t \<noteq> 0 \<longrightarrow>
      (find_program_epg now epg key (Some t) = Inr None \<longleftrightarrow>
         (\<exists>ps. epg key = Some ps \<and>
            (\<forall>p\<in>set ps. \<not> (of_int (p_start p) \<le> t \<and> t \<le> of_int (p_end p))))))
   \<and> (find_program_epg now epg key None = Inr None \<longleftrightarrow>
         (\<exists>ps. epg key = Some ps \<and>
            (\<forall>p\<in>set ps. \<not> (of_int (p_start p) \<le> now \<and> now \<le> of_int (p_end p)))))
   \<and> find_program_epg now epg key (Some 0) = find_program_epg now epg key None
   \<and> (epg key = None \<longrightarrow> find_program_epg now epg key ts = Inl (KeyError key))
   \<and> (get_channels guide = Inr channels \<longrightarrow> get_epg ts2str guide = Inr index \<longrightarrow>
        (\<forall>ch\<in>set channels. index (ch_service_key ch) \<noteq> None) \<and>
        (\<exists>res. channels_loop clock index t channels = Inr res))
   \<and> (\<not> content_true (load s t1 ''cache/epg.json'' (Some 60)) \<longrightarrow> t2 - t1 < 60 \<longrightarrow>
        get_channels answer1 = Inr channels \<longrightarrow> get_epg ts2str answer1 = Inr index \<longrightarrow>
        (\<exists>res. get_channels_with_epg ts2str answer1 answer2 t t1 t2 clock s =
                 Inr (res, s(''cache/epg.json'' \<mapsto> (Guide answer1, t1)))))
   \<and> (s ''cache/epg.json'' = Some (Guide guide, written) \<longrightarrow> t1 - written < 60 \<longrightarrow>
        t2 - written < 60 \<longrightarrow>
        get_channels guide = Inr channels \<longrightarrow> get_epg ts2str guide = Inr index \<longrightarrow>
        (\<exists>res. get_channels_with_epg ts2str answer1 answer2 t t1 t2 clock s = Inr (res, s)))"
proof -
  have a: "t \<noteq> 0 \<longrightarrow>
      (find_program_epg now epg key (Some t) = Inr None \<longleftrightarrow>
         (\<exists>ps. epg key = Some ps \<and>
            (\<forall>p\<in>set ps. \<not> (of_int (p_start p) \<le> t \<and> t \<le> of_int (p_end p)))))"
    by (cases "epg key")
      (simp_all add: find_program_epg_def ebind_def req_def find_program_loop_None
        timestamp_or_now_def covers_def)
  have b: "find_program_epg now epg key None = Inr None \<longleftrightarrow>
         (\<exists>ps. epg key = Some ps \<and>
            (\<forall>p\<in>set ps. \<not> (of_int (p_start p) \<le> now \<and> now \<le> of_int (p_end p))))"
    by (cases "epg key")
      (simp_all add: find_program_epg_def ebind_def req_def find_program_loop_None
        timestamp_or_now_def covers_def)
  have c: "epg key = None \<longrightarrow> find_program_epg now epg key ts = Inl (KeyError key)"
    by (simp add: find_program_epg_def ebind_def req_def)
  have d: "get_channels guide = Inr channels \<longrightarrow> get_epg ts2str guide = Inr index \<longrightarrow>
        (\<forall>ch\<in>set channels. index (ch_service_key ch) \<noteq> None) \<and>
        (\<exists>res. channels_loop clock index t channels = Inr res)"
    using same_guide_keys [of guide channels ts2str index]
      channels_loop_total [of channels index clock t]
    by blast
  have e: "\<not> content_true (load s t1 ''cache/epg.json'' (Some 60)) \<longrightarrow> t2 - t1 < 60 \<longrightarrow>
        get_channels answer1 = Inr channels \<longrightarrow> get_epg ts2str answer1 = Inr index \<longrightarrow>
        (\<exists>res. get_channels_with_epg ts2str answer1 answer2 t t1 t2 clock s =
                 Inr (res, s(''cache/epg.json'' \<mapsto> (Guide answer1, t1))))"
  proof (intro impI)
    assume h: "\<not> content_true (load s t1 ''cache/epg.json'' (Some 60))" "t2 - t1 < 60"
      "get_channels answer1 = Inr channels" "get_epg ts2str answer1 = Inr index"
    have "download_epg answer2 t2 (s(''cache/epg.json'' \<mapsto> (Guide answer1, t1))) =
            Inr (answer1, s(''cache/epg.json'' \<mapsto> (Guide answer1, t1)))"
      using h(2) by (simp add: download_epg_hit)
    then show "\<exists>res. get_channels_with_epg ts2str answer1 answer2 t t1 t2 clock s =
                 Inr (res, s(''cache/epg.json'' \<mapsto> (Guide answer1, t1)))"
      using get_channels_with_epg_same_guide [OF download_epg_miss [OF h(1)] _ h(3,4)]
      by blast
  qed
  have f: "s ''cache/epg.json'' = Some (Guide guide, written) \<longrightarrow> t1 - written < 60 \<longrightarrow>
        t2 - written < 60 \<longrightarrow>
        get_channels guide = Inr channels \<longrightarrow> get_epg ts2str guide = Inr index \<longrightarrow>
        (\<exists>res. get_channels_with_epg ts2str answer1 answer2 t t1 t2 clock s = Inr (res, s))"
    using get_channels_with_epg_same_guide [of answer1 t1 s guide s answer2 t2 s channels ts2str index]
    by (simp add: download_epg_hit)
  show ?thesis
    using a b c d e f find_program_epg_zero [of now epg key] by blast
qed

lemma ex_get_channels:
  "get_channels (ex_guide 1000 60) =
     Inr [\<lparr> ch_art = art0, ch_type = ''movie'', ch_stream_type = ''tv'',
            ch_mediatype = ''movie'', ch_dial = ''1'', ch_title = ''1. One'',
            ch_channel_name = ''One'', ch_id = ''c1'', ch_service_key = ''4001'',
            ch_playcount = 1, ch_channel_type = ''LINEAR'', ch_plot = None,
            ch_duration = None, ch_content_id = None, ch_provider_variant_id = None \<rparr>]"
  by (simp add: get_channels_def ex_guide_def channel_of_def ebind_def req_def str_def digits.simps)

text \<open>
  A key that is missing raises, a key that is there gives not-found when no entry
  contains the time; and the channels of a guide fetched at 1030 and read again at 1031
  are listed with the programme that runs at 1030.
\<close>

theorem find_program_epg_not_found_iff_witness:
  "find_program_epg 1030 [''4001'' \<mapsto> [ex_entry 1000 60]] ''4002'' None = Inl (KeyError ''4002'')
   \<and> find_program_epg 1030 [''4001'' \<mapsto> [ex_entry 1000 60]] ''4001'' (Some 2000) = Inr None
   \<and> find_program_epg 1030 [''4001'' \<mapsto> [ex_entry 1000 60]] ''4001'' None \<noteq> Inr None
   \<and> map_sum id (map ch_title \<circ> fst)
       (get_channels_with_epg ex_ts2str (ex_guide 1000 60) (ex_other_guide 1000 60) 1030 1030 1031 1031
          Map.empty) = Inr [''1. One - [COLOR yellow]News[/COLOR]'']"
  using find_program_epg_not_found_iff [of 2000 1030 "[''4001'' \<mapsto> [ex_entry 1000 60]]" "''4002''" None
      "ex_guide 1000 60" _ ex_ts2str "[''4001'' \<mapsto> [ex_entry 1000 60]]" 1031 Map.empty 1030 1031
      "ex_guide 1000 60" "ex_other_guide 1000 60" 0]
    find_program_epg_not_found_iff [of 2000 1030 "[''4001'' \<mapsto> [ex_entry 1000 60]]" "''4001''" None
      "ex_guide 1000 60" _ ex_ts2str "[''4001'' \<mapsto> [ex_entry 1000 60]]" 1031 Map.empty 1030 1031
      "ex_guide 1000 60" "ex_other_guide 1000 60" 0]
  by (simp add: ex_entry_def get_channels_with_epg_def download_epg_def load_def content_true_def
      save_json_def loads_guide_def Let_def ebind_def ex_get_channels ex_get_epg
      find_program_epg_def timestamp_or_now_def req_def with_program_def truthy_def covers_def)

text \<open>
  Claim C10 as stated fails twice. At the timestamp zero the lookup yields not-found
  although the key is in the index and the entry from 0 to 3600 contains the timestamp.
  And \<^verbatim>\<open>get_channels_with_epg\<close> does not build the channels and the index from one fetch:
  with a cached guide written at 1000, read for the channels at 1059 and expired at 1061,
  when the index is built from a new answer without the channel, its lookup raises.
\<close>

theorem find_program_epg_not_found_counterexample:
  "covers (ex_entry 0 3600) 0
   \<and> find_program_epg 1700000000 [''4001'' \<mapsto> [ex_entry 0 3600]] ''4001'' (Some 0) = Inr None
   \<and> get_channels_with_epg ex_ts2str (ex_other_guide 1000 60) (ex_other_guide 1000 60) 1059 1059 1061 1061
       [''cache/epg.json'' \<mapsto> (Guide (ex_guide 1000 60), 1000)] = Inl (KeyError ''4001'')"
  by (simp add: covers_def ex_entry_def get_channels_with_epg_def download_epg_def load_def
      content_true_def save_json_def loads_guide_def Let_def ebind_def ex_get_channels
      ex_get_other_epg find_program_epg_def timestamp_or_now_def req_def)

section \<open>Properties of the session\<close>

lemma path_ne_searchs: "config_dir p @ CHR ''/'' # f \<noteq> ''searchs.json''"
  by (cases p) (simp_all add: config_dir_def)

lemma init_start_frame:
  "st_headers (init_start up st) = st_headers st \<and> st_store (init_start up st) = st_store st \<and>
   st_mints (init_start up st) = st_mints st \<and> st_cookie (init_start up st) = st_cookie st \<and>
   st_user_token (init_start up st) = st_user_token st \<and>
   st_get_token_error (init_start up st) = [] \<and>
   st_profile_id (init_start up st) = st_profile_id st \<and>
   st_device_id (init_start up st) = st_device_id st"
  by (simp add: init_start_def)

lemma init_cookie_frame:
  assumes "init_cookie p st = Inr st'"
  shows "st_headers st' = st_headers st \<and> st_store st' = st_store st \<and>
         st_mints st' = st_mints st \<and> st_user_token st' = st_user_token st \<and>
         st_get_token_error st' = st_get_token_error st \<and>
         st_profile_id st' = st_profile_id st \<and> st_device_id st' = st_device_id st \<and>
         st_net_headers st' = st_net_headers st"
  using assms
  by (auto simp add: init_cookie_def Let_def ebind_def split: if_splits sum.splits)

lemma init_device_id_frame:
  assumes "init_device_id p up now st = Inr st'"
  shows "st_headers st' = st_headers st \<and> st_cookie st' = st_cookie st \<and>
         st_mints st' = st_mints st \<and> st_user_token st' = st_user_token st \<and>
         st_get_token_error st' = st_get_token_error st \<and>
         st_profile_id st' = st_profile_id st \<and>
         st_net_headers st' = st_net_headers st \<and>
         (\<forall>k. k \<noteq> config_dir p @ ''/device_id.conf'' \<longrightarrow> st_store st' k = st_store st k)"
  using assms
  by (auto simp add: init_device_id_def Let_def ebind_def save_file_def split: if_splits sum.splits)

lemma load_localisation_frame:
  assumes "load_localisation p up now st = Inr (e, st')"
  shows "st_headers st' = st_headers st \<and> st_cookie st' = st_cookie st \<and>
         st_mints st' = st_mints st \<and> st_user_token st' = st_user_token st \<and>
         st_get_token_error st' = st_get_token_error st \<and>
         st_profile_id st' = st_profile_id st \<and> st_device_id st' = st_device_id st \<and>
         st_net_headers st' = st_net_headers st \<and>
         (\<forall>k. k \<noteq> config_dir p @ ''/localisation.json'' \<longrightarrow> st_store st' k = st_store st k) \<and>
         e = (case load (st_store st) now (config_dir p @ ''/localisation.json'') None of
                Some (Localisation d) \<Rightarrow> d | _ \<Rightarrow> up_localisation up)"
  using assms
  by (auto simp add: load_localisation_def Let_def ebind_def save_json_def content_true_def
      loads_localisation_def get_localisation_def
      split: if_splits sum.splits option.splits content.splits)

lemma apply_localisation_frame:
  "st_cookie (apply_localisation e st) = st_cookie st \<and>
   st_store (apply_localisation e st) = st_store st \<and>
   st_mints (apply_localisation e st) = st_mints st \<and>
   st_user_token (apply_localisation e st) = st_user_token st \<and>
   st_get_token_error (apply_localisation e st) = st_get_token_error st \<and>
   st_profile_id (apply_localisation e st) = st_profile_id st \<and>
   st_device_id (apply_localisation e st) = st_device_id st \<and>
   st_net_headers (apply_localisation e st) = st_net_headers st"
  by (simp add: apply_localisation_def split: option.splits)

lemma apply_localisation_headers:
  "st_headers (apply_localisation e st) k =
     (case lo_headers e of
        None \<Rightarrow> st_headers st k
      | Some h \<Rightarrow>
          if k \<in> {''x-skyott-activeterritory'', ''x-skyott-language'', ''x-skyott-territory''}
          then Some (h k) else st_headers st k)"
  by (simp add: apply_localisation_def split: option.splits)

lemma override_territory_frame:
  assumes "override_territory territory st = Inr st'"
  shows "st_cookie st' = st_cookie st \<and> st_store st' = st_store st \<and>
         st_mints st' = st_mints st \<and> st_user_token st' = st_user_token st \<and>
         st_get_token_error st' = st_get_token_error st \<and>
         st_profile_id st' = st_profile_id st \<and> st_device_id st' = st_device_id st"
  using assms
  by (auto simp add: override_territory_def Let_def ebind_def header_def req_def
      split: if_splits sum.splits option.splits)

lemma override_territory_headers:
  assumes "override_territory territory st = Inr st'"
  shows "st_headers st' ''x-skyott-territory'' =
           (if truthy territory then Some territory else st_headers st ''x-skyott-territory'')"
    and "st_headers st' ''x-skyott-activeterritory'' =
           (if truthy territory \<and> st_headers st ''x-skyott-activeterritory'' = Some (Some ''XX'')
            then Some territory else st_headers st ''x-skyott-activeterritory'')"
    and "st_net_headers st' = st_net_headers st ++ st_headers st'"
  using assms
  by (auto simp add: override_territory_def Let_def ebind_def header_def req_def
      split: if_splits sum.splits option.splits)

lemma cookie_territory_cases:
  assumes "cookie_territory territory st = Inr t"
  shows "(truthy territory \<longrightarrow> t = territory) \<and>
         (\<not> truthy territory \<longrightarrow> st_cookie st = Some (Bytes cookie) \<longrightarrow>
            search_hterr cookie = Some code \<longrightarrow> t = Some code) \<and>
         (\<not> truthy territory \<longrightarrow>
            \<not> cookie_true (st_cookie st) \<or>
              (st_cookie st = Some (Bytes cookie) \<and> search_hterr cookie = None) \<longrightarrow>
            t = territory)"
  using assms
  by (auto simp add: cookie_territory_def cookie_true_def
      split: if_splits option.splits cookie.splits)

lemma search_hterr_truthy: "search_hterr s = Some code \<Longrightarrow> truthy (Some code)"
  by (induction s) (auto simp add: match_hterr_def truthy_def split: if_splits option.splits list.splits)

lemma init_profile_frame:
  assumes "init_profile p up now st = Inr st'"
  shows "st_headers st' = st_headers st \<and> st_cookie st' = st_cookie st \<and>
         st_mints st' = st_mints st \<and> st_user_token st' = st_user_token st \<and>
         st_get_token_error st' = st_get_token_error st \<and>
         st_device_id st' = st_device_id st \<and> st_net_headers st' = st_net_headers st \<and>
         (\<forall>k. k \<noteq> config_dir p @ ''/profile.json'' \<longrightarrow> st_store st' k = st_store st k)"
  using assms
  by (auto simp add: init_profile_def select_default_profile_def Let_def ebind_def save_json_def
      split: if_splits sum.splits list.splits prod.splits)


lemma init_profile_info_frame:
  assumes "init_profile_info p up now st = Inr st'"
  shows "st_cookie st' = st_cookie st \<and>
         st_mints st' = st_mints st \<and> st_user_token st' = st_user_token st \<and>
         st_get_token_error st' = st_get_token_error st \<and>
         st_profile_id st' = st_profile_id st \<and> st_device_id st' = st_device_id st \<and>
         (\<forall>k. k \<noteq> ''x-skyott-language'' \<longrightarrow> st_headers st' k = st_headers st k) \<and>
         (\<forall>k. k \<noteq> config_dir p @ ''/profile_info.json'' \<longrightarrow> st_store st' k = st_store st k)"
  using assms
  by (auto simp add: init_profile_info_def Let_def ebind_def save_json_def
      split: if_splits sum.splits option.splits prod.splits)

lemma init_search_frame:
  assumes "init_search st = Inr st'"
  shows "st_headers st' = st_headers st \<and> st_cookie st' = st_cookie st \<and>
         st_mints st' = st_mints st \<and> st_user_token st' = st_user_token st \<and>
         st_get_token_error st' = st_get_token_error st \<and>
         st_profile_id st' = st_profile_id st \<and> st_device_id st' = st_device_id st \<and>
         st_net_headers st' = st_net_headers st \<and> st_store st' = st_store st"
  using assms
  by (auto simp add: init_search_def Let_def ebind_def split: if_splits sum.splits)

lemma init_segments_frame:
  assumes "init_segments p up now st = Inr st'"
  shows "st_headers st' = st_headers st \<and> st_cookie st' = st_cookie st \<and>
         st_mints st' = st_mints st \<and> st_user_token st' = st_user_token st \<and>
         st_get_token_error st' = st_get_token_error st \<and>
         st_profile_id st' = st_profile_id st \<and> st_device_id st' = st_device_id st \<and>
         st_net_headers st' = st_net_headers st \<and>
         (\<forall>k. k \<noteq> config_dir p @ ''/me.json'' \<longrightarrow> st_store st' k = st_store st k)"
  using assms
  by (auto simp add: init_segments_def Let_def ebind_def save_json_def
      split: if_splits sum.splits option.splits prod.splits)

lemma init_token_frame:
  assumes "init_token p up now st = Inr st'"
  shows "st_headers st' = st_headers st \<and> st_cookie st' = st_cookie st \<and>
         st_profile_id st' = st_profile_id st \<and> st_device_id st' = st_device_id st \<and>
         st_net_headers st' = st_net_headers st \<and>
         (\<forall>k. k \<noteq> config_dir p @ ''/token.json'' \<longrightarrow> st_store st' k = st_store st k)"
  using assms
  by (auto simp add: init_token_def get_tokens_def Let_def ebind_def save_json_def
      split: if_splits sum.splits option.splits prod.splits)

lemma init_stages:
  assumes "init p up now territory st = Inr st'"
  obtains s1 s2 s3 s4 s5 s6 s7 where
    "init_cookie p (init_start up st) = Inr s1"
    "init_device_id p up now s1 = Inr s2"
    "init_territory p up now territory s2 = Inr s3"
    "init_profile p up now s3 = Inr s4"
    "init_profile_info p up now s4 = Inr s5"
    "init_token p up now s5 = Inr s6"
    "init_search s6 = Inr s7"
    "init_segments p up now s7 = Inr st'"
  using assms unfolding init_def ebind_Inr_iff by blast

lemma init_territory_stages:
  assumes "init_territory p up now territory st = Inr st'"
  obtains t e s where
    "cookie_territory territory st = Inr t"
    "load_localisation p up now st = Inr (e, s)"
    "override_territory t (apply_localisation e s) = Inr st'"
  using assms unfolding init_territory_def ebind_Inr_iff by (auto split: prod.splits)

lemma init_territory_frame:
  assumes "init_territory p up now territory st = Inr st'"
  shows "st_cookie st' = st_cookie st \<and>
         st_mints st' = st_mints st \<and> st_user_token st' = st_user_token st \<and>
         st_get_token_error st' = st_get_token_error st \<and>
         st_profile_id st' = st_profile_id st \<and> st_device_id st' = st_device_id st \<and>
         (\<forall>k. k \<noteq> config_dir p @ ''/localisation.json'' \<longrightarrow> st_store st' k = st_store st k)"
proof -
  obtain t e s where
    l: "load_localisation p up now st = Inr (e, s)" and
    ov: "override_territory t (apply_localisation e s) = Inr st'"
    using assms by (rule init_territory_stages)
  show ?thesis
    using load_localisation_frame [OF l] override_territory_frame [OF ov]
      apply_localisation_frame [of e s]
    by simp
qed

lemma later_steps_headers:
  assumes "init_profile p up now s3 = Inr s4"
    "init_profile_info p up now s4 = Inr s5"
    "init_token p up now s5 = Inr s6"
    "init_search s6 = Inr s7"
    "init_segments p up now s7 = Inr st'"
    and "k \<noteq> ''x-skyott-language''"
  shows "st_headers st' k = st_headers s3 k"
  using init_profile_frame [OF assms(1)] init_profile_info_frame [OF assms(2)]
    init_token_frame [OF assms(3)] init_search_frame [OF assms(4)]
    init_segments_frame [OF assms(5)] assms(6)
  by simp

lemma init_territory_empty:
  "init_territory p up now (Some []) st = init_territory p up now None st"
  by (auto simp add: init_territory_def cookie_territory_def override_territory_def truthy_def
      ebind_def split: cookie.splits option.splits sum.splits)

lemma init_empty: "init p up now (Some []) st = init p up now None st"
  by (simp add: init_def init_territory_empty)

text \<open>
  Claim C1, as the code has it. For a bootstrap that completes: with a territory given
  that is not the empty string, the header \<^verbatim>\<open>x-skyott-territory\<close> ends as that territory;
  without one, and with the cookie of the session (the bytes read from the cookie file,
  or those an earlier instance left) holding \<^verbatim>\<open>hterr=\<close> and two capital letters, it ends
  as the letters of the leftmost such place; without either, and with a localisation
  document (the cached one, or else the answer of the service) that has \<^verbatim>\<open>headers\<close>, it
  ends as the territory of these, and with a document that has none it stays as it was.
  With a territory given and the active territory of the localisation equal to \<^verbatim>\<open>XX\<close>,
  the header \<^verbatim>\<open>x-skyott-activeterritory\<close> ends as the given territory too. The empty
  string given as the territory is no territory: the bootstrap is the one without.
\<close>

theorem territory_precedence:
  assumes "init p up now territory st = Inr st'"
    and "init_cookie p (init_start up st) = Inr st1"
    and "extra_headers =
           (case load (st_store st) now (config_dir p @ ''/localisation.json'') None of
              Some (Localisation d) \<Rightarrow> d | _ \<Rightarrow> up_localisation up)"
  shows
    "(truthy territory \<longrightarrow> st_headers st' ''x-skyott-territory'' = Some territory) \<and>
     (\<not> truthy territory \<longrightarrow> st_cookie st1 = Some (Bytes cookie) \<longrightarrow>
        search_hterr cookie = Some code \<longrightarrow>
        st_headers st' ''x-skyott-territory'' = Some (Some code)) \<and>
     (\<not> truthy territory \<longrightarrow>
        \<not> cookie_true (st_cookie st1) \<or>
          (st_cookie st1 = Some (Bytes cookie) \<and> search_hterr cookie = None) \<longrightarrow>
        lo_headers extra_headers = Some h \<longrightarrow>
        st_headers st' ''x-skyott-territory'' = Some (h ''x-skyott-territory'')) \<and>
     (truthy territory \<longrightarrow> lo_headers extra_headers = Some h \<longrightarrow>
        h ''x-skyott-activeterritory'' = Some ''XX'' \<longrightarrow>
        st_headers st' ''x-skyott-activeterritory'' = Some territory) \<and>
     (\<not> truthy territory \<longrightarrow>
        \<not> cookie_true (st_cookie st1) \<or>
          (st_cookie st1 = Some (Bytes cookie) \<and> search_hterr cookie = None) \<longrightarrow>
        lo_headers extra_headers = None \<longrightarrow>
        st_headers st' ''x-skyott-territory'' = st_headers st ''x-skyott-territory'') \<and>
     init p up now (Some []) st = init p up now None st"
proof -
  obtain s1 s2 s3 s4 s5 s6 s7 where
    st: "init_cookie p (init_start up st) = Inr s1"
      "init_device_id p up now s1 = Inr s2"
      "init_territory p up now territory s2 = Inr s3"
    and later: "init_profile p up now s3 = Inr s4"
      "init_profile_info p up now s4 = Inr s5"
      "init_token p up now s5 = Inr s6"
      "init_search s6 = Inr s7"
      "init_segments p up now s7 = Inr st'"
    using assms(1) by (rule init_stages)
  have s1: "s1 = st1" using st(1) assms(2) by simp
  obtain t e s where
    ck: "cookie_territory territory s2 = Inr t" and
    l: "load_localisation p up now s2 = Inr (e, s)" and
    ov: "override_territory t (apply_localisation e s) = Inr s3"
    using st(3) by (rule init_territory_stages)
  have cookie: "st_cookie s2 = st_cookie st1"
    using init_device_id_frame [OF st(2)] s1 by simp
  have "load (st_store s2) now (config_dir p @ ''/localisation.json'') None =
        load (st_store st) now (config_dir p @ ''/localisation.json'') None"
    using init_device_id_frame [OF st(2)] init_cookie_frame [OF st(1)] init_start_frame [of up st]
    by (simp add: load_def)
  hence e: "e = extra_headers"
    using load_localisation_frame [OF l] assms(3) by simp
  have T: "st_headers st' ''x-skyott-territory'' = st_headers s3 ''x-skyott-territory''"
    and A: "st_headers st' ''x-skyott-activeterritory'' = st_headers s3 ''x-skyott-activeterritory''"
    using later by (simp_all add: later_steps_headers)
  note o = override_territory_headers(1,2) [OF ov]
  note c = cookie_territory_cases [OF ck, of cookie code]
  have a: "truthy territory \<longrightarrow> st_headers st' ''x-skyott-territory'' = Some territory"
    using T o(1) c by simp
  have b: "\<not> truthy territory \<longrightarrow> st_cookie st1 = Some (Bytes cookie) \<longrightarrow>
        search_hterr cookie = Some code \<longrightarrow>
        st_headers st' ''x-skyott-territory'' = Some (Some code)"
    using T o(1) c cookie search_hterr_truthy [of cookie code] by simp
  have d: "\<not> truthy territory \<longrightarrow>
        \<not> cookie_true (st_cookie st1) \<or>
          (st_cookie st1 = Some (Bytes cookie) \<and> search_hterr cookie = None) \<longrightarrow>
        lo_headers extra_headers = Some h \<longrightarrow>
        st_headers st' ''x-skyott-territory'' = Some (h ''x-skyott-territory'')"
    using T o(1) c cookie e by (auto simp add: apply_localisation_headers)
  have x: "truthy territory \<longrightarrow> lo_headers extra_headers = Some h \<longrightarrow>
        h ''x-skyott-activeterritory'' = Some ''XX'' \<longrightarrow>
        st_headers st' ''x-skyott-activeterritory'' = Some territory"
    using A o(2) c e by (auto simp add: apply_localisation_headers)
  have "st_headers s (''x-skyott-territory'') = st_headers st ''x-skyott-territory''"
    using load_localisation_frame [OF l] init_device_id_frame [OF st(2)]
      init_cookie_frame [OF st(1)] init_start_frame [of up st]
    by simp
  hence n: "\<not> truthy territory \<longrightarrow>
        \<not> cookie_true (st_cookie st1) \<or>
          (st_cookie st1 = Some (Bytes cookie) \<and> search_hterr cookie = None) \<longrightarrow>
        lo_headers extra_headers = None \<longrightarrow>
        st_headers st' ''x-skyott-territory'' = st_headers st ''x-skyott-territory''"
    using T o(1) c cookie e by (auto simp add: apply_localisation_headers)
  show ?thesis using a b d x n init_empty [of p up now st] by blast
qed

lemma get_tokens_result:
  assumes "get_tokens up st = Inr (data, st1)"
  obtains rq where "st1 = st\<lparr>st_mints := st_mints st @ [rq]\<rparr>" "data = up_tokens up rq"
    "tr_personaId rq = st_profile_id st"
  using assms
  by (auto simp add: get_tokens_def ebind_def Let_def split: sum.splits)

lemma init_token_miss:
  assumes "\<not> content_true (load (st_store st) now (config_dir p @ ''/token.json'') (Some 60))"
    and "get_tokens up st = Inr (data, st1)"
  shows "\<exists>st'. init_token p up now st = Inr st' \<and>
           st_mints st' = st_mints st1 \<and>
           st_store st' = (if tk_userToken data \<noteq> None
                           then (st_store st)(config_dir p @ ''/token.json'' \<mapsto> (Tokens data, now))
                           else st_store st) \<and>
           st_user_token st' = (case tk_userToken data of None \<Rightarrow> st_user_token st | Some t \<Rightarrow> Some t) \<and>
           st_get_token_error st' =
             (case tk_description data of None \<Rightarrow> st_get_token_error st | Some d \<Rightarrow> d)"
proof -
  obtain rq where st1: "st1 = st\<lparr>st_mints := st_mints st @ [rq]\<rparr>"
    using assms(2) by (rule get_tokens_result)
  show ?thesis
    using assms st1
    by (auto simp add: init_token_def Let_def ebind_def save_json_def split: option.splits)
qed

lemma init_token_miss_Inr:
  assumes "\<not> content_true (load (st_store st) now (config_dir p @ ''/token.json'') (Some 60))"
    and "init_token p up now st = Inr st'"
  obtains data st1 where "get_tokens up st = Inr (data, st1)"
  using assms
  by (auto simp add: init_token_def Let_def ebind_def split: sum.splits)

lemma init_token_hit:
  assumes "st_store st (config_dir p @ ''/token.json'') = Some (Tokens data, written)"
    and "now - written < 60"
  shows "\<exists>st'. init_token p up now st = Inr st' \<and> st_mints st' = st_mints st \<and>
           st_store st' = st_store st \<and>
           st_get_token_error st' = st_get_token_error st \<and>
           st_user_token st' = (case tk_userToken data of None \<Rightarrow> st_user_token st | Some t \<Rightarrow> Some t)"
  using assms
  by (auto simp add: init_token_def Let_def ebind_def load_def content_true_def loads_tokens_def
      split: option.splits)

lemma before_token_frame:
  assumes "init_cookie p (init_start up st) = Inr s1"
    "init_device_id p up now s1 = Inr s2"
    "init_territory p up now territory s2 = Inr s3"
    "init_profile p up now s3 = Inr s4"
    "init_profile_info p up now s4 = Inr s5"
  shows "st_mints s5 = st_mints st \<and>
         st_store s5 (config_dir p @ ''/token.json'') = st_store st (config_dir p @ ''/token.json'') \<and>
         st_user_token s5 = st_user_token st \<and>
         st_get_token_error s5 = [] \<and>
         st_store s3 (config_dir p @ ''/profile.json'') = st_store st (config_dir p @ ''/profile.json'') \<and>
         st_profile_id s5 = st_profile_id s4"
  using init_start_frame [of up st] init_cookie_frame [OF assms(1)]
    init_device_id_frame [OF assms(2)] init_territory_frame [OF assms(3)]
    init_profile_frame [OF assms(4)] init_profile_info_frame [OF assms(5)]
  by simp

lemma after_token_frame:
  assumes "init_search s6 = Inr s7" "init_segments p up now s7 = Inr st'"
  shows "st_mints st' = st_mints s6 \<and>
         st_store st' (config_dir p @ ''/token.json'') = st_store s6 (config_dir p @ ''/token.json'') \<and>
         st_user_token st' = st_user_token s6 \<and>
         st_get_token_error st' = st_get_token_error s6"
  using init_search_frame [OF assms(1)] init_segments_frame [OF assms(2)]
  by simp

lemma first_bootstrap_caches:
  assumes "st_store st (config_dir p @ ''/token.json'') = None"
    and "init p up now territory st = Inr sa"
    and "\<forall>rq. tk_userToken (up_tokens up rq) = Some tok"
  shows "\<exists>data. st_store sa (config_dir p @ ''/token.json'') = Some (Tokens data, now) \<and>
           tk_userToken data = Some tok \<and> st_user_token sa = Some tok"
proof -
  obtain s1 s2 s3 s4 s5 s6 s7 where
    b: "init_cookie p (init_start up st) = Inr s1"
      "init_device_id p up now s1 = Inr s2"
      "init_territory p up now territory s2 = Inr s3"
      "init_profile p up now s3 = Inr s4"
      "init_profile_info p up now s4 = Inr s5"
    and t: "init_token p up now s5 = Inr s6"
    and a: "init_search s6 = Inr s7" "init_segments p up now s7 = Inr sa"
    using assms(2) by (rule init_stages)
  have miss: "\<not> content_true (load (st_store s5) now (config_dir p @ ''/token.json'') (Some 60))"
    using before_token_frame [OF b] assms(1) by (simp add: load_def content_true_def)
  obtain data st1 where g: "get_tokens up s5 = Inr (data, st1)"
    using miss t by (rule init_token_miss_Inr)
  obtain rq where "data = up_tokens up rq"
    using g by (rule get_tokens_result)
  hence tok: "tk_userToken data = Some tok" using assms(3) by simp
  show ?thesis
    using init_token_miss [OF miss g] t tok after_token_frame [OF a]
    by auto
qed

lemma second_bootstrap_reuses:
  assumes "st_store sb (config_dir p @ ''/token.json'') = Some (Tokens data, written)"
    and "now - written < 60"
    and "tk_userToken data = Some tok"
    and "init p up now territory sb = Inr sc"
  shows "st_mints sc = st_mints sb \<and> st_user_token sc = Some tok"
proof -
  obtain s1 s2 s3 s4 s5 s6 s7 where
    b: "init_cookie p (init_start up sb) = Inr s1"
      "init_device_id p up now s1 = Inr s2"
      "init_territory p up now territory s2 = Inr s3"
      "init_profile p up now s3 = Inr s4"
      "init_profile_info p up now s4 = Inr s5"
    and t: "init_token p up now s5 = Inr s6"
    and a: "init_search s6 = Inr s7" "init_segments p up now s7 = Inr sc"
    using assms(4) by (rule init_stages)
  have hit: "st_store s5 (config_dir p @ ''/token.json'') = Some (Tokens data, written)"
    using before_token_frame [OF b] assms(1) by simp
  show ?thesis
    using init_token_hit [OF hit assms(2), of up] t after_token_frame [OF a]
      before_token_frame [OF b] assms(3)
    by auto
qed

lemma refused_bootstrap:
  assumes "st_store st (config_dir p @ ''/token.json'') = None"
    and "init p up now territory st = Inr sa"
    and "\<forall>rq. tk_userToken (up_tokens up rq) = None \<and>
              tk_description (up_tokens up rq) = Some description"
  shows "st_store sa (config_dir p @ ''/token.json'') = None \<and>
         st_get_token_error sa = description \<and> st_user_token sa = st_user_token st"
proof -
  obtain s1 s2 s3 s4 s5 s6 s7 where
    b: "init_cookie p (init_start up st) = Inr s1"
      "init_device_id p up now s1 = Inr s2"
      "init_territory p up now territory s2 = Inr s3"
      "init_profile p up now s3 = Inr s4"
      "init_profile_info p up now s4 = Inr s5"
    and t: "init_token p up now s5 = Inr s6"
    and a: "init_search s6 = Inr s7" "init_segments p up now s7 = Inr sa"
    using assms(2) by (rule init_stages)
  note f = before_token_frame [OF b]
  have miss: "\<not> content_true (load (st_store s5) now (config_dir p @ ''/token.json'') (Some 60))"
    using f assms(1) by (simp add: load_def content_true_def)
  obtain data st1 where g: "get_tokens up s5 = Inr (data, st1)"
    using miss t by (rule init_token_miss_Inr)
  obtain rq where "data = up_tokens up rq"
    using g by (rule get_tokens_result)
  hence d: "tk_userToken data = None" "tk_description data = Some description"
    using assms(3) by simp_all
  show ?thesis
    using init_token_miss [OF miss g] t d after_token_frame [OF a] f assms(1)
    by auto
qed

text \<open>
  Claim C7, as the code has it. When the token file is absent or stale and the mint call answers with a
  \<^verbatim>\<open>userToken\<close>, the token step of the bootstrap writes the answer to the token file at
  the time of the clock and sets the user token. After a bootstrap that started without a
  token file and was given a token, a second bootstrap on the same files less than 60
  seconds later, whatever else its state and its service, sends no request to the token
  endpoint and has the same user token. When the answer has no \<^verbatim>\<open>userToken\<close> but a
  \<^verbatim>\<open>description\<close>, the token step returns without raising, leaves the files as they are,
  keeps the description as \<^verbatim>\<open>get_token_error\<close> and sets no user token; and so does the
  whole bootstrap, if it completes: no token file, the description kept, and the user
  token of the account as it was before, which is none in a new process and the token of
  an earlier bootstrap in a process that has made one.
\<close>

theorem token_acquisition:
  "(\<not> content_true (load (st_store st) now (config_dir p @ ''/token.json'') (Some 60)) \<longrightarrow>
      get_tokens up st = Inr (data, st1) \<longrightarrow> tk_userToken data = Some tok \<longrightarrow>
      (\<exists>st'. init_token p up now st = Inr st' \<and>
         st_store st' (config_dir p @ ''/token.json'') = Some (Tokens data, now) \<and>
         st_user_token st' = Some tok))
   \<and> (st_store st (config_dir p @ ''/token.json'') = None \<longrightarrow>
        init p up now territory st = Inr sa \<longrightarrow>
        (\<forall>rq. tk_userToken (up_tokens up rq) = Some tok) \<longrightarrow>
        st_store sb = st_store sa \<longrightarrow> now2 - now < 60 \<longrightarrow>
        init p up2 now2 territory2 sb = Inr sc \<longrightarrow>
        st_mints sc = st_mints sb \<and> st_user_token sc = Some tok)
   \<and> (\<not> content_true (load (st_store st) now (config_dir p @ ''/token.json'') (Some 60)) \<longrightarrow>
        get_tokens up st = Inr (data, st1) \<longrightarrow> tk_userToken data = None \<longrightarrow>
        tk_description data = Some description \<longrightarrow>
        (\<exists>st'. init_token p up now st = Inr st' \<and> st_store st' = st_store st \<and>
           st_get_token_error st' = description \<and> st_user_token st' = st_user_token st))
   \<and> (st_store st (config_dir p @ ''/token.json'') = None \<longrightarrow>
        init p up now territory st = Inr sa \<longrightarrow>
        (\<forall>rq. tk_userToken (up_tokens up rq) = None \<and>
              tk_description (up_tokens up rq) = Some description) \<longrightarrow>
        st_store sa (config_dir p @ ''/token.json'') = None \<and>
        st_get_token_error sa = description \<and> st_user_token sa = st_user_token st)"
proof -
  have a: "\<not> content_true (load (st_store st) now (config_dir p @ ''/token.json'') (Some 60)) \<longrightarrow>
      get_tokens up st = Inr (data, st1) \<longrightarrow> tk_userToken data = Some tok \<longrightarrow>
      (\<exists>st'. init_token p up now st = Inr st' \<and>
         st_store st' (config_dir p @ ''/token.json'') = Some (Tokens data, now) \<and>
         st_user_token st' = Some tok)"
    using init_token_miss [of st now p up data st1] by auto
  have b: "st_store st (config_dir p @ ''/token.json'') = None \<longrightarrow>
        init p up now territory st = Inr sa \<longrightarrow>
        (\<forall>rq. tk_userToken (up_tokens up rq) = Some tok) \<longrightarrow>
        st_store sb = st_store sa \<longrightarrow> now2 - now < 60 \<longrightarrow>
        init p up2 now2 territory2 sb = Inr sc \<longrightarrow>
        st_mints sc = st_mints sb \<and> st_user_token sc = Some tok"
  proof (intro impI)
    assume h: "st_store st (config_dir p @ ''/token.json'') = None"
      "init p up now territory st = Inr sa"
      "\<forall>rq. tk_userToken (up_tokens up rq) = Some tok"
      "st_store sb = st_store sa" "now2 - now < 60"
      "init p up2 now2 territory2 sb = Inr sc"
    obtain d where d: "st_store sa (config_dir p @ ''/token.json'') = Some (Tokens d, now)"
      "tk_userToken d = Some tok"
      using first_bootstrap_caches [OF h(1,2,3)] by blast
    have "st_store sb (config_dir p @ ''/token.json'') = Some (Tokens d, now)"
      using d(1) h(4) by simp
    thus "st_mints sc = st_mints sb \<and> st_user_token sc = Some tok"
      using h(5) d(2) h(6) by (rule second_bootstrap_reuses)
  qed
  have c: "\<not> content_true (load (st_store st) now (config_dir p @ ''/token.json'') (Some 60)) \<longrightarrow>
        get_tokens up st = Inr (data, st1) \<longrightarrow> tk_userToken data = None \<longrightarrow>
        tk_description data = Some description \<longrightarrow>
        (\<exists>st'. init_token p up now st = Inr st' \<and> st_store st' = st_store st \<and>
           st_get_token_error st' = description \<and> st_user_token st' = st_user_token st)"
    using init_token_miss [of st now p up data st1] by auto
  have d: "st_store st (config_dir p @ ''/token.json'') = None \<longrightarrow>
        init p up now territory st = Inr sa \<longrightarrow>
        (\<forall>rq. tk_userToken (up_tokens up rq) = None \<and>
              tk_description (up_tokens up rq) = Some description) \<longrightarrow>
        st_store sa (config_dir p @ ''/token.json'') = None \<and>
        st_get_token_error sa = description \<and> st_user_token sa = st_user_token st"
    using refused_bootstrap [of st p up now territory sa description] by blast
  show ?thesis using a b c d by blast
qed

lemma remove_files_store:
  "remove_files pldir fs s k = (if k \<in> (\<lambda>f. pldir @ ''/'' @ f) ` set fs then None else s k)"
  by (induction fs arbitrary: s) (auto simp add: remove_file_def)








lemma clear_session_store:
  "st_store (clear_session p st) k =
     (if k \<in> (\<lambda>f. config_dir p @ ''/'' @ f) `
            {''device_id.conf'', ''localisation.json'', ''profile.json'', ''profile_info.json'',
             ''token.json'', ''menu.json'', ''me.json''}
      then None else st_store st k)"
  by (simp add: clear_session_def remove_files_store del: remove_files.simps)

lemma bootstrap_new_device_id:
  assumes "st_store sb (config_dir p @ ''/device_id.conf'') = None"
    and "init p up now territory sb = Inr sc"
  shows "st_device_id sc = Some (up_create_device_id up) \<and>
         st_store sc (config_dir p @ ''/device_id.conf'') = Some (Text (up_create_device_id up), now)"
proof -
  obtain s1 s2 s3 s4 s5 s6 s7 where
    b: "init_cookie p (init_start up sb) = Inr s1"
      "init_device_id p up now s1 = Inr s2"
      "init_territory p up now territory s2 = Inr s3"
      "init_profile p up now s3 = Inr s4"
      "init_profile_info p up now s4 = Inr s5"
      "init_token p up now s5 = Inr s6"
      "init_search s6 = Inr s7" "init_segments p up now s7 = Inr sc"
    using assms(2) by (rule init_stages)
  have "st_store s1 (config_dir p @ ''/device_id.conf'') = None"
    using init_start_frame [of up sb] init_cookie_frame [OF b(1)] assms(1) by simp
  hence "st_device_id s2 = Some (up_create_device_id up) \<and>
         st_store s2 (config_dir p @ ''/device_id.conf'') = Some (Text (up_create_device_id up), now)"
    using b(2)
    by (auto simp add: init_device_id_def Let_def load_file_def content_true_def save_file_def)
  thus ?thesis
    using init_territory_frame [OF b(3)] init_profile_frame [OF b(4)]
      init_profile_info_frame [OF b(5)] init_token_frame [OF b(6)]
      init_search_frame [OF b(7)] init_segments_frame [OF b(8)]
    by simp
qed

text \<open>
  Claim C5, as the code has it. \<^verbatim>\<open>clear_session\<close> removes seven files of the platform,
  the device id among them, and leaves every other file as it is, in particular the cookie
  file and the saved searches. The device id is therefore not preserved: the file is gone,
  and the bootstrap that follows, if it completes, draws a new device id and writes it.
\<close>

theorem clear_session_frame:
  "st_store (clear_session p st) k =
     (if k \<in> (\<lambda>f. config_dir p @ ''/'' @ f) `
            {''device_id.conf'', ''localisation.json'', ''profile.json'', ''profile_info.json'',
             ''token.json'', ''menu.json'', ''me.json''}
      then None else st_store st k)
   \<and> st_store (clear_session p st) (config_dir p @ ''/cookie.conf'') =
       st_store st (config_dir p @ ''/cookie.conf'')
   \<and> st_store (clear_session p st) ''searchs.json'' = st_store st ''searchs.json''
   \<and> st_store (clear_session p st) (config_dir p @ ''/device_id.conf'') = None
   \<and> (st_store sb = st_store (clear_session p st) \<longrightarrow> init p up now territory sb = Inr sc \<longrightarrow>
        st_device_id sc = Some (up_create_device_id up) \<and>
        st_store sc (config_dir p @ ''/device_id.conf'') =
          Some (Text (up_create_device_id up), now))"
proof -
  have d: "st_store (clear_session p st) (config_dir p @ ''/device_id.conf'') = None"
    by (simp add: clear_session_store)
  have c: "st_store (clear_session p st) (config_dir p @ ''/cookie.conf'') =
       st_store st (config_dir p @ ''/cookie.conf'')"
    by (simp add: clear_session_store)
  have s: "st_store (clear_session p st) ''searchs.json'' = st_store st ''searchs.json''"
    using path_ne_searchs [of p, symmetric] by (auto simp add: clear_session_store)
  have n: "st_store sb = st_store (clear_session p st) \<longrightarrow> init p up now territory sb = Inr sc \<longrightarrow>
        st_device_id sc = Some (up_create_device_id up) \<and>
        st_store sc (config_dir p @ ''/device_id.conf'') =
          Some (Text (up_create_device_id up), now)"
    using d bootstrap_new_device_id [of sb p up now territory sc] by simp
  show ?thesis using clear_session_store [of p st k] d c s n by blast
qed

text \<open>
  Claim C6. For a session whose transport headers contain \<^verbatim>\<open>x-skyott-device\<close>, as they do
  after every bootstrap: when the body is an object whose \<^verbatim>\<open>properties.eventType\<close> is
  \<^verbatim>\<open>success\<close>, \<^verbatim>\<open>login\<close> stores the cookie string in the account and in the cookie file and
  returns the pair of \<^verbatim>\<open>True\<close> and the body; when reading the body raises, it returns the
  pair of \<^verbatim>\<open>False\<close> and the body; and when the body is read without an exception and its
  event type is not \<^verbatim>\<open>success\<close>, it returns nothing, which is where the code departs
  from the claim.
\<close>

theorem login_result:
  assumes "st_net_headers st ''x-skyott-device'' = Some d"
    and "response = up_login up username password"
  shows
    "(json_loads (lr_content response) = EventType (Some ''success'') \<longrightarrow>
        login p up json_loads now username password st =
          Inr (Some (True, lr_content response),
               st\<lparr> st_cookie := Some (Str (join_cookies (lr_cookies response))),
                   st_store := (st_store st)(config_dir p @ ''/cookie.conf'' \<mapsto>
                                 (Text (join_cookies (lr_cookies response)), now)) \<rparr>))
     \<and> (json_loads (lr_content response) \<in> {NotJson, NotAnObject, NoProperties, BadProperties} \<longrightarrow>
          login p up json_loads now username password st =
            Inr (Some (False, lr_content response), st))
     \<and> (json_loads (lr_content response) = EventType event \<longrightarrow> event \<noteq> Some ''success'' \<longrightarrow>
          login p up json_loads now username password st = Inr (None, st))"
  using assms
  by (auto simp add: login_def ebind_def req_def Let_def save_file_def)

subsection \<open>The session on example data\<close>

lemmas init_eval =
  init_def init_start_def init_cookie_def init_device_id_def init_territory_def
  cookie_territory_def load_localisation_def apply_localisation_def override_territory_def
  init_profile_def select_default_profile_def init_profile_info_def init_token_def
  init_search_def init_segments_def get_localisation_def get_profiles_def profile_of_def
  get_profile_info_def get_me_def get_tokens_def header_def req_def ebind_def Let_def
  load_def load_file_def save_file_def save_json_def content_true_def text_of_def
  loads_localisation_def loads_profile_def loads_profile_info_def loads_tokens_def
  loads_me_def loads_searches_def config_dir_def platform_headers_def state0_def
  truthy_def cookie_true_def replace_def strip_def is_space_def match_hterr_def is_capital_def
  ex_persona_def ex_localisation_def ex_tokens_def ex_refusal_def ex_upstream_def ex_files_def

lemma ex_init_override:
  "\<exists>sa. init Skyshowtime (ex_upstream ex_tokens) 100 (Some ''NL'') (state0 Skyshowtime ex_files) = Inr sa"
  by (simp add: init_eval)

lemma ex_init_cookie:
  "\<exists>sa. init Skyshowtime (ex_upstream ex_tokens) 100 None (state0 Skyshowtime ex_files) = Inr sa"
  by (simp add: init_eval)

lemma ex_init_fresh:
  "\<exists>sa. init Skyshowtime (ex_upstream ex_tokens) 100 None (state0 Skyshowtime Map.empty) = Inr sa"
  by (simp add: init_eval)

lemma ex_cookie_loaded:
  "init_cookie Skyshowtime (init_start up (state0 Skyshowtime ex_files)) =
     Inr ((init_start up (state0 Skyshowtime ex_files))
            \<lparr>st_cookie := Some (Bytes ''session=1; hterr=DE''), st_logged := True\<rparr>)"
  by (simp add: init_eval)

lemma ex_cookie_absent:
  "init_cookie Skyshowtime (init_start up (state0 Skyshowtime Map.empty)) =
     Inr (init_start up (state0 Skyshowtime Map.empty))"
  by (simp add: init_eval)

lemma ex_search_hterr: "search_hterr ''session=1; hterr=DE'' = Some ''DE''"
  by (simp add: match_hterr_def is_capital_def)

text \<open>
  Three bootstraps of a new process with a localisation of territory \<^verbatim>\<open>PL\<close> and active
  territory \<^verbatim>\<open>XX\<close>: with the territory \<^verbatim>\<open>NL\<close> given, both headers end as \<^verbatim>\<open>NL\<close>; with
  none given and the cookie \<^verbatim>\<open>session=1; hterr=DE\<close> on file, the territory ends as \<^verbatim>\<open>DE\<close>;
  with neither, it ends as \<^verbatim>\<open>PL\<close>.
\<close>

theorem territory_precedence_witness:
  "(\<exists>sa. init Skyshowtime (ex_upstream ex_tokens) 100 (Some ''NL'') (state0 Skyshowtime ex_files) = Inr sa
       \<and> st_headers sa ''x-skyott-territory'' = Some (Some ''NL'')
       \<and> st_headers sa ''x-skyott-activeterritory'' = Some (Some ''NL''))
   \<and> (\<exists>sb. init Skyshowtime (ex_upstream ex_tokens) 100 None (state0 Skyshowtime ex_files) = Inr sb
       \<and> st_headers sb ''x-skyott-territory'' = Some (Some ''DE''))
   \<and> (\<exists>sc. init Skyshowtime (ex_upstream ex_tokens) 100 None (state0 Skyshowtime Map.empty) = Inr sc
       \<and> st_headers sc ''x-skyott-territory'' = Some (Some ''PL''))"
proof -
  obtain sa where a: "init Skyshowtime (ex_upstream ex_tokens) 100 (Some ''NL'') (state0 Skyshowtime ex_files) = Inr sa"
    using ex_init_override by blast
  obtain sb where b: "init Skyshowtime (ex_upstream ex_tokens) 100 None (state0 Skyshowtime ex_files) = Inr sb"
    using ex_init_cookie by blast
  obtain sc where c: "init Skyshowtime (ex_upstream ex_tokens) 100 None (state0 Skyshowtime Map.empty) = Inr sc"
    using ex_init_fresh by blast
  have "st_headers sa ''x-skyott-territory'' = Some (Some ''NL'')
       \<and> st_headers sa ''x-skyott-activeterritory'' = Some (Some ''NL'')"
    using territory_precedence [OF a ex_cookie_loaded refl,
        of "''session=1; hterr=DE''" "''DE''" "the (lo_headers ex_localisation)"]
    by (simp add: truthy_def load_def state0_def ex_files_def config_dir_def ex_upstream_def
        ex_localisation_def)
  moreover have "st_headers sb ''x-skyott-territory'' = Some (Some ''DE'')"
    using territory_precedence [OF b ex_cookie_loaded refl,
        of "''session=1; hterr=DE''" "''DE''" "the (lo_headers ex_localisation)"]
    by (simp add: truthy_def match_hterr_def is_capital_def)
  moreover have "st_headers sc ''x-skyott-territory'' = Some (Some ''PL'')"
    using territory_precedence [OF c ex_cookie_absent refl,
        of "[]" "[]" "the (lo_headers ex_localisation)"]
    by (simp add: truthy_def cookie_true_def init_start_def load_def state0_def config_dir_def
        ex_upstream_def ex_localisation_def)
  ultimately show ?thesis using a b c by blast
qed

lemma ex_two_bootstraps:
  "\<exists>sa sc. init Skyshowtime (ex_upstream ex_tokens) 100 None (state0 Skyshowtime Map.empty) = Inr sa
     \<and> st_mints sa \<noteq> []
     \<and> init Skyshowtime (ex_upstream ex_tokens) 130 None (state0 Skyshowtime (st_store sa)) = Inr sc"
  by (simp add: init_eval)

lemma ex_refused_bootstrap:
  "\<exists>sd. init Skyshowtime (ex_upstream ex_refusal) 100 None (state0 Skyshowtime Map.empty) = Inr sd"
  by (simp add: init_eval)

text \<open>
  A first bootstrap at 100 mints a token; a second one at 130, in a new process on the
  files of the first, mints none and has the token. A bootstrap whose mint call is
  refused completes with no token file, the description kept and no user token.
\<close>

theorem token_acquisition_witness:
  "(\<exists>sa sc. init Skyshowtime (ex_upstream ex_tokens) 100 None (state0 Skyshowtime Map.empty) = Inr sa
      \<and> st_mints sa \<noteq> []
      \<and> init Skyshowtime (ex_upstream ex_tokens) 130 None (state0 Skyshowtime (st_store sa)) = Inr sc
      \<and> st_mints sc = [] \<and> st_user_token sc = Some ''token1'')
   \<and> (\<exists>sd. init Skyshowtime (ex_upstream ex_refusal) 100 None (state0 Skyshowtime Map.empty) = Inr sd
      \<and> st_store sd ''skyshowtime/token.json'' = None
      \<and> st_get_token_error sd = ''Account blocked'' \<and> st_user_token sd = None)"
proof -
  obtain sa sc where
    a: "init Skyshowtime (ex_upstream ex_tokens) 100 None (state0 Skyshowtime Map.empty) = Inr sa"
    and m: "st_mints sa \<noteq> []"
    and c: "init Skyshowtime (ex_upstream ex_tokens) 130 None (state0 Skyshowtime (st_store sa)) = Inr sc"
    using ex_two_bootstraps by blast
  obtain sd where
    d: "init Skyshowtime (ex_upstream ex_refusal) 100 None (state0 Skyshowtime Map.empty) = Inr sd"
    using ex_refused_bootstrap by blast
  have "st_mints sc = [] \<and> st_user_token sc = Some ''token1''"
    using token_acquisition [of "state0 Skyshowtime Map.empty" 100 Skyshowtime "ex_upstream ex_tokens"
        ex_tokens "state0 Skyshowtime Map.empty" "''token1''" None sa
        "state0 Skyshowtime (st_store sa)" 130 "ex_upstream ex_tokens" None sc "[]"] a c
    by (simp add: state0_def ex_upstream_def ex_tokens_def)
  moreover have "st_store sd ''skyshowtime/token.json'' = None
      \<and> st_get_token_error sd = ''Account blocked'' \<and> st_user_token sd = None"
    using token_acquisition [of "state0 Skyshowtime Map.empty" 100 Skyshowtime "ex_upstream ex_refusal"
        ex_refusal "state0 Skyshowtime Map.empty" "''token1''" None sd
        "state0 Skyshowtime Map.empty" 130 "ex_upstream ex_refusal" None sd "''Account blocked''"] d
    by (simp add: state0_def ex_upstream_def ex_refusal_def config_dir_def)
  ultimately show ?thesis using a m c d by blast
qed




lemma ex_reset_bootstrap:
  "\<exists>sc. init Skyshowtime (ex_upstream ex_tokens) 100 None
           (state0 Skyshowtime (st_store (clear_session Skyshowtime (state0 Skyshowtime ex_files)))) = Inr sc"
  by (simp add: clear_session_def remove_file_def init_eval)

text \<open>
  Files with a device id, a cookie and saved searches: after the reset the device id is
  gone, the cookie and the searches are there, and the next bootstrap has the device id
  that the service of the example draws.
\<close>

theorem clear_session_frame_witness:
  "st_store (clear_session Skyshowtime (state0 Skyshowtime ex_files)) ''skyshowtime/device_id.conf'' = None
   \<and> st_store (clear_session Skyshowtime (state0 Skyshowtime ex_files)) ''skyshowtime/cookie.conf'' =
       Some (Text ''session=1; hterr=DE'', 0)
   \<and> st_store (clear_session Skyshowtime (state0 Skyshowtime ex_files)) ''searchs.json'' =
       Some (Searches [''heat''], 0)
   \<and> (\<exists>sc. init Skyshowtime (ex_upstream ex_tokens) 100 None
           (state0 Skyshowtime (st_store (clear_session Skyshowtime (state0 Skyshowtime ex_files)))) = Inr sc
        \<and> st_device_id sc = Some ''device2'')"
proof -
  obtain sc where c: "init Skyshowtime (ex_upstream ex_tokens) 100 None
           (state0 Skyshowtime (st_store (clear_session Skyshowtime (state0 Skyshowtime ex_files)))) = Inr sc"
    using ex_reset_bootstrap by blast
  note t = clear_session_frame [of Skyshowtime "state0 Skyshowtime ex_files" "''skyshowtime/device_id.conf''"
      "state0 Skyshowtime (st_store (clear_session Skyshowtime (state0 Skyshowtime ex_files)))"
      "ex_upstream ex_tokens" 100 None sc]
  have "st_device_id sc = Some ''device2''"
    using t c by (simp add: state0_def ex_upstream_def)
  moreover have "st_store (clear_session Skyshowtime (state0 Skyshowtime ex_files)) ''skyshowtime/device_id.conf'' = None
   \<and> st_store (clear_session Skyshowtime (state0 Skyshowtime ex_files)) ''skyshowtime/cookie.conf'' =
       Some (Text ''session=1; hterr=DE'', 0)
   \<and> st_store (clear_session Skyshowtime (state0 Skyshowtime ex_files)) ''searchs.json'' =
       Some (Searches [''heat''], 0)"
    using t by (simp add: config_dir_def state0_def ex_files_def)
  ultimately show ?thesis using c by blast
qed

text \<open>
  Claim C5 as stated fails: on the same files the bootstrap reads the device id
  \<^verbatim>\<open>device1\<close> before the reset and draws \<^verbatim>\<open>device2\<close> after it.
\<close>

theorem clear_session_device_id_counterexample:
  "map_sum id st_device_id
     (init Skyshowtime (ex_upstream ex_tokens) 100 None (state0 Skyshowtime ex_files)) =
       Inr (Some ''device1'')
   \<and> map_sum id st_device_id
       (init Skyshowtime (ex_upstream ex_tokens) 100 None
          (state0 Skyshowtime (st_store (clear_session Skyshowtime (state0 Skyshowtime ex_files))))) =
       Inr (Some ''device2'')"
  by (simp add: clear_session_def remove_file_def init_eval)

lemma ex_bootstrapped:
  "\<exists>sa. init Skyshowtime (ex_upstream ex_tokens) 100 None (state0 Skyshowtime Map.empty) = Inr sa
     \<and> st_net_headers sa ''x-skyott-device'' = Some (Some ''MOBILE'')"
  by (simp add: init_eval)

text \<open>
  After a bootstrap, a login whose body is read as an object with the event type
  \<^verbatim>\<open>failure\<close> returns nothing and changes nothing; with the event type \<^verbatim>\<open>success\<close> it returns
  the pair.
\<close>

theorem login_result_witness:
  "\<exists>sa. init Skyshowtime (ex_upstream ex_tokens) 100 None (state0 Skyshowtime Map.empty) = Inr sa
     \<and> login Skyshowtime (ex_upstream ex_tokens) ex_json_loads 200 ''ann'' ''guess'' sa = Inr (None, sa)
     \<and> map_sum id fst (login Skyshowtime (ex_upstream ex_tokens) ex_json_loads 200 ''ann'' ''secret'' sa) =
         Inr (Some (True, ''welcome''))"
proof -
  obtain sa where
    a: "init Skyshowtime (ex_upstream ex_tokens) 100 None (state0 Skyshowtime Map.empty) = Inr sa"
    and h: "st_net_headers sa ''x-skyott-device'' = Some (Some ''MOBILE'')"
    using ex_bootstrapped by blast
  have "login Skyshowtime (ex_upstream ex_tokens) ex_json_loads 200 ''ann'' ''guess'' sa = Inr (None, sa)"
    using login_result [of sa "Some ''MOBILE''" _ "ex_upstream ex_tokens" "''ann''" "''guess''"
        ex_json_loads Skyshowtime 200 "Some ''failure''", OF h refl]
    by (simp add: ex_upstream_def ex_json_loads_def)
  moreover have "map_sum id fst (login Skyshowtime (ex_upstream ex_tokens) ex_json_loads 200 ''ann'' ''secret'' sa) =
         Inr (Some (True, ''welcome''))"
    using login_result [of sa "Some ''MOBILE''" _ "ex_upstream ex_tokens" "''ann''" "''secret''"
        ex_json_loads Skyshowtime 200 "Some ''failure''", OF h refl]
    by (simp add: ex_upstream_def ex_json_loads_def)
  ultimately show ?thesis using a by blast
qed

text \<open>
  Claim C1 as stated, for every territory given, fails at the empty string: the header
  ends as the territory of the cookie, not as the string given.
\<close>

theorem territory_precedence_empty_counterexample:
  "map_sum id (\<lambda>st'. st_headers st' ''x-skyott-territory'')
     (init Skyshowtime (ex_upstream ex_tokens) 100 (Some []) (state0 Skyshowtime ex_files)) =
   Inr (Some (Some ''DE''))"
  by (simp add: init_eval)

text \<open>
  Claim C7 as stated, with no user token set after a refusal, fails in a process that has
  bootstrapped before: the first bootstrap, at 100, is given a token; the second, at 200
  on the state the first left, asks again and is refused; the description is kept and the
  token of the first is still the user token of the account.
\<close>

theorem token_refusal_counterexample:
  "map_sum id (\<lambda>st'. (st_user_token st', st_get_token_error st', length (st_mints st')))
     (ebind (init Skyshowtime (ex_upstream ex_tokens) 100 None (state0 Skyshowtime Map.empty))
            (init Skyshowtime (ex_upstream ex_refusal) 200 None)) =
   Inr (Some ''token1'', ''Account blocked'', 2)"
  by (simp add: init_eval)

end

